theory Spec2Isabelle
  imports Main "HOL-Library.Word"
begin

text \<open>
  A model of the event normalizer of the kiosk page: the callback that \<open>fetchEchoData\<close>
  maps over \<open>data.records\<close>, and the sorting and filtering of its results. The request
  itself (the API key, the query parameters, \<open>fetch\<close>) is outside the model. The repository
  holds two copies of the page; the model follows the one that takes the requested locale
  into account. The other copy (\<open>app.vue\<close>) has the same sanitizer, the same search for
  the next occurrence, the same URL and the same sorting and filtering; it reads only
  \<open>dates[0]\<close> and resolves titles from English first.
\<close>

section \<open>Strings and the regular expressions of the description sanitizer\<close>

text \<open>
  A JavaScript string is a sequence of UTF-16 code units. String values of the records
  (titles, descriptions, formatted dates) are lists of 16-bit words; \<open>js\<close> embeds an ASCII
  literal. Property names (locale codes, weekday names) are ASCII and stay \<open>string\<close>s.
\<close>

type_synonym jschar = "16 word"
type_synonym jsstring = "jschar list"

definition js :: "string \<Rightarrow> jsstring" where
  "js s = map (\<lambda>c. of_nat (of_char c)) s"

text \<open>The class \<open>\s\<close> of a JavaScript regular expression, which is also what
  \<open>String.prototype.trim\<close> removes: WhiteSpace and LineTerminator of ECMAScript.\<close>

definition is_space :: "jschar \<Rightarrow> bool" where
  "is_space c \<longleftrightarrow>
     (0x09 \<le> c \<and> c \<le> 0x0D) \<or> c = 0x20 \<or> c = 0xA0 \<or> c = 0x1680 \<or>
     (0x2000 \<le> c \<and> c \<le> 0x200A) \<or> c = 0x2028 \<or> c = 0x2029 \<or> c = 0x202F \<or>
     c = 0x205F \<or> c = 0x3000 \<or> c = 0xFEFF"

text \<open>The characters that \<open>.\<close> does not match (no \<open>s\<close> flag).\<close>

definition is_line_terminator :: "jschar \<Rightarrow> bool" where
  "is_line_terminator c \<longleftrightarrow> c = 0x0A \<or> c = 0x0D \<or> c = 0x2028 \<or> c = 0x2029"

text \<open>Case folding of the \<open>i\<close> flag. The patterns it is used on are ASCII, and a character
  outside ASCII never folds to an ASCII one, so folding the ASCII letters is exact here.\<close>

definition canonicalize :: "jschar \<Rightarrow> jschar" where
  "canonicalize c = (if 0x61 \<le> c \<and> c \<le> 0x7A then c - 0x20 else c)"

fun starts_with :: "jsstring \<Rightarrow> jsstring \<Rightarrow> bool" where
  "starts_with [] s = True"
| "starts_with (p # ps) [] = False"
| "starts_with (p # ps) (c # cs) = (p = c \<and> starts_with ps cs)"

fun starts_with_ci :: "jsstring \<Rightarrow> jsstring \<Rightarrow> bool" where
  "starts_with_ci [] s = True"
| "starts_with_ci (p # ps) [] = False"
| "starts_with_ci (p # ps) (c # cs) =
     (canonicalize p = canonicalize c \<and> starts_with_ci ps cs)"

text \<open>\<open>[\s\S]*?\<close> followed by a literal (case-insensitive): the offset of the first
  occurrence of the literal.\<close>

fun lazy_any_until_ci :: "jsstring \<Rightarrow> jsstring \<Rightarrow> nat option" where
  "lazy_any_until_ci p [] = (if p = [] then Some 0 else None)"
| "lazy_any_until_ci p (c # cs) =
     (if starts_with_ci p (c # cs) then Some 0
      else map_option Suc (lazy_any_until_ci p cs))"

text \<open>\<open>.*?\<close> followed by a literal: as above, but \<open>.\<close> stops at a line terminator.\<close>

fun lazy_dot_until :: "jsstring \<Rightarrow> jsstring \<Rightarrow> nat option" where
  "lazy_dot_until p [] = (if p = [] then Some 0 else None)"
| "lazy_dot_until p (c # cs) =
     (if starts_with p (c # cs) then Some 0
      else if is_line_terminator c then None
      else map_option Suc (lazy_dot_until p cs))"

text \<open>Each matcher gives the length of the match of its regular expression at the head of
  the string, \<open>None\<close> when it does not match there. A greedy \<open>[^>]*\<close> followed by \<open>>\<close>
  can only end at the first \<open>>\<close>, so no backtracking is lost.\<close>

definition match_style :: "jsstring \<Rightarrow> nat option" where
  "match_style s =
     (if starts_with_ci (js ''<style'') s then
        (let r = drop 6 s; n = length (takeWhile (\<lambda>c. c \<noteq> 0x3E) r) in
         case drop n r of
           [] \<Rightarrow> None
         | _ # body \<Rightarrow>
             (case lazy_any_until_ci (js ''</style>'') body of
                None \<Rightarrow> None
              | Some j \<Rightarrow> Some (6 + n + 1 + j + 8)))
      else None)"

definition match_p :: "jsstring \<Rightarrow> nat option" where
  "match_p s =
     (if starts_with (js ''<p>'') s then
        (case lazy_dot_until (js ''</p>'') (drop 3 s) of
           None \<Rightarrow> None
         | Some j \<Rightarrow> Some (3 + j + 4))
      else None)"

definition match_tag :: "jsstring \<Rightarrow> nat option" where
  "match_tag s =
     (case s of
        [] \<Rightarrow> None
      | c # r \<Rightarrow>
          if c = 0x3C then
            (let n = length (takeWhile (\<lambda>c. c \<noteq> 0x3E) r) in
             case drop n r of [] \<Rightarrow> None | _ # _ \<Rightarrow> Some (1 + n + 1))
          else None)"

definition match_spaces :: "jsstring \<Rightarrow> nat option" where
  "match_spaces s =
     (let n = length (takeWhile is_space s) in if n = 0 then None else Some n)"

definition match_literal :: "jsstring \<Rightarrow> jsstring \<Rightarrow> nat option" where
  "match_literal p s = (if starts_with p s then Some (length p) else None)"

text \<open>\<open>s.replace(re, rep)\<close> with the \<open>g\<close> flag: scan from the left, replace the match at
  the first position that has one, continue behind it. The counter is the number of
  characters of the current match still to be skipped. No expression here matches the
  empty string.\<close>

fun replace_all :: "(jsstring \<Rightarrow> nat option) \<Rightarrow> jsstring \<Rightarrow> nat \<Rightarrow> jsstring \<Rightarrow> jsstring" where
  "replace_all m rep k [] = []"
| "replace_all m rep (Suc k) (c # cs) = replace_all m rep k cs"
| "replace_all m rep 0 (c # cs) =
     (case m (c # cs) of
        Some (Suc n) \<Rightarrow> rep @ replace_all m rep n cs
      | _ \<Rightarrow> c # replace_all m rep 0 cs)"

text \<open>\<open>s.match(re)\<close> with the \<open>g\<close> flag: the matched substrings, from left to right
  (\<open>null\<close> is the empty list).\<close>

fun match_all :: "(jsstring \<Rightarrow> nat option) \<Rightarrow> nat \<Rightarrow> jsstring \<Rightarrow> jsstring list" where
  "match_all m k [] = []"
| "match_all m (Suc k) (c # cs) = match_all m k cs"
| "match_all m 0 (c # cs) =
     (case m (c # cs) of
        Some (Suc n) \<Rightarrow> take (Suc n) (c # cs) # match_all m n cs
      | _ \<Rightarrow> match_all m 0 cs)"

text \<open>\<open>match.replace(/<p>(.*?)<\/p>/, '$1')\<close>: the first match is replaced by its group.\<close>

fun replace_p_group :: "jsstring \<Rightarrow> jsstring" where
  "replace_p_group [] = []"
| "replace_p_group (c # cs) =
     (case match_p (c # cs) of
        Some n \<Rightarrow> take (n - 7) (drop 3 (c # cs)) @ drop n (c # cs)
      | None \<Rightarrow> c # replace_p_group cs)"

fun join :: "jsstring \<Rightarrow> jsstring list \<Rightarrow> jsstring" where
  "join sep [] = []"
| "join sep [x] = x"
| "join sep (x # y # ys) = x @ sep @ join sep (y # ys)"

definition trim :: "jsstring \<Rightarrow> jsstring" where
  "trim s = rev (dropWhile is_space (rev (dropWhile is_space s)))"

text \<open>The sanitizer of \<open>fetchEchoData\<close>, from \<open>initialDescription\<close> to \<open>description\<close>.\<close>

definition sanitize :: "jsstring \<Rightarrow> jsstring" where
  "sanitize initialDescription =
     (let rawDescription = replace_all match_style [] 0 initialDescription;
          rawDescription =
            (case match_all match_p 0 rawDescription of
               [] \<Rightarrow> []
             | ms \<Rightarrow> join [0x0A, 0x0A]
                       (map (\<lambda>m. replace_all match_tag [] 0 (replace_p_group m)) ms));
          rawDescription =
            replace_all match_spaces (js '' '') 0
              (trim (replace_all match_tag [] 0 rawDescription));
          rawDescription =
            replace_all (match_literal [0xFEFF]) (js ''<br/><br/>'') 0 rawDescription;
          rawDescription =
            replace_all (match_literal (js ''&nbsp;'')) (js '' '') 0 rawDescription
      in rawDescription)"


section \<open>Dates\<close>

text \<open>
  A \<open>Date\<close> is a number of milliseconds since the epoch, or the Invalid Date (\<open>None\<close>),
  which is what \<open>new Date(s)\<close> and \<open>parseISO(s)\<close> give for a missing or unparseable
  \<open>s\<close>. The records carry their timestamps already parsed: the two parsers agree on the
  complete ISO-8601 timestamps of the API. The local time zone of the kiosk is a fixed
  offset \<open>tz\<close> (local minus UTC, in milliseconds), a parameter of every function that
  reads local fields. A change of the offset (daylight saving) between the current time and
  a candidate is outside the model: there \<open>addDays\<close> differs from a multiple of 24 hours
  by the amount of the change.
\<close>

type_synonym jsdate = "int option"

definition msPerDay :: int where
  "msPerDay = 24 * 60 * 60 * 1000"

definition getDay :: "int \<Rightarrow> int \<Rightarrow> nat" where
  "getDay tz t = nat (((t + tz) div msPerDay + 4) mod 7)"

definition getHours :: "int \<Rightarrow> int \<Rightarrow> int" where
  "getHours tz t = ((t + tz) mod msPerDay) div 3600000"

definition getMinutes :: "int \<Rightarrow> int \<Rightarrow> int" where
  "getMinutes tz t = ((t + tz) mod 3600000) div 60000"

text \<open>Year, month (1 to 12) and day of the month of a day number (days since the epoch),
  in the proleptic Gregorian calendar of \<open>Date\<close>.\<close>

definition civil :: "int \<Rightarrow> int \<times> int \<times> int" where
  "civil days =
     (let z = days + 719468;
          era = z div 146097;
          doe = z mod 146097;
          yoe = (doe - doe div 1460 + doe div 36524 - doe div 146096) div 365;
          doy = doe - (365 * yoe + yoe div 4 - yoe div 100);
          mp = (5 * doy + 2) div 153;
          d = doy - (153 * mp + 2) div 5 + 1;
          m = (if mp < 10 then mp + 3 else mp - 9);
          y = yoe + era * 400
      in (if m \<le> 2 then y + 1 else y, m, d))"

definition getFullYear :: "int \<Rightarrow> int \<Rightarrow> int" where
  "getFullYear tz t = fst (civil ((t + tz) div msPerDay))"

text \<open>\<open>getMonth() + 1\<close>, the number that \<open>MM\<close> prints.\<close>

definition getMonth1 :: "int \<Rightarrow> int \<Rightarrow> int" where
  "getMonth1 tz t = fst (snd (civil ((t + tz) div msPerDay)))"

definition getDate :: "int \<Rightarrow> int \<Rightarrow> int" where
  "getDate tz t = snd (snd (civil ((t + tz) div msPerDay)))"

fun digits :: "nat \<Rightarrow> jsstring" where
  "digits n = (if n < 10 then [0x30 + of_nat n] else digits (n div 10) @ [0x30 + of_nat (n mod 10)])"

declare digits.simps [simp del]

text \<open>\<open>addLeadingZeros\<close> of date-fns.\<close>

definition addLeadingZeros :: "int \<Rightarrow> nat \<Rightarrow> jsstring" where
  "addLeadingZeros number targetLength =
     (let output = digits (nat \<bar>number\<bar>)
      in (if number < 0 then js ''-'' else []) @
         replicate (targetLength - length output) 0x30 @ output)"

text \<open>The patterns of \<open>format\<close> that the code uses, on a valid date:
  \<open>dd/MM/yyyy\<close> (the year token counts year 0 and before as years of the era before),
  \<open>HH:mm\<close>, and \<open>EEEE\<close> with the locale chosen by \<open>locales[lang]\<close>. For a
  \<open>lang\<close> other than the three, \<open>locales[lang]\<close> is \<open>undefined\<close> and \<open>format\<close> takes
  its default locale, en-US (the names of properties that every object inherits, such as
  \<open>constructor\<close>, are not locale codes and are outside the model).\<close>

definition fmt_date :: "int \<Rightarrow> int \<Rightarrow> jsstring" where
  "fmt_date tz t =
     (let signedYear = getFullYear tz t;
          year = (if signedYear > 0 then signedYear else 1 - signedYear)
      in addLeadingZeros (getDate tz t) 2 @ js ''/'' @ addLeadingZeros (getMonth1 tz t) 2 @
         js ''/'' @ addLeadingZeros year 4)"

definition fmt_time :: "int \<Rightarrow> int \<Rightarrow> jsstring" where
  "fmt_time tz t =
     addLeadingZeros (getHours tz t) 2 @ js '':'' @ addLeadingZeros (getMinutes tz t) 2"

definition weekdays :: "string \<Rightarrow> string list" where
  "weekdays lang =
     (if lang = ''fr'' then
        [''dimanche'', ''lundi'', ''mardi'', ''mercredi'', ''jeudi'', ''vendredi'', ''samedi'']
      else if lang = ''de'' then
        [''Sonntag'', ''Montag'', ''Dienstag'', ''Mittwoch'', ''Donnerstag'', ''Freitag'',
         ''Samstag'']
      else
        [''Sunday'', ''Monday'', ''Tuesday'', ''Wednesday'', ''Thursday'', ''Friday'',
         ''Saturday''])"

definition fmt_weekday :: "string \<Rightarrow> int \<Rightarrow> int \<Rightarrow> jsstring" where
  "fmt_weekday lang tz t = js (weekdays lang ! getDay tz t)"

text \<open>The functions of date-fns on dates. \<open>addDays\<close> moves the local calendar day and
  keeps the local time of day, which in a zone of fixed offset is a multiple of 24 hours;
  \<open>setDay\<close> is with the default \<open>weekStartsOn = 0\<close>. \<open>isBefore\<close> compares the
  time values, so it is false when either date is invalid.\<close>

definition addDays :: "int \<Rightarrow> int \<Rightarrow> int" where
  "addDays t amount = t + amount * msPerDay"

definition addWeeks :: "int \<Rightarrow> int \<Rightarrow> int" where
  "addWeeks t amount = addDays t (amount * 7)"

definition setDay :: "int \<Rightarrow> int \<Rightarrow> nat \<Rightarrow> int" where
  "setDay tz t day = addDays t (int day - int (getDay tz t))"

definition isBefore :: "jsdate \<Rightarrow> jsdate \<Rightarrow> bool" where
  "isBefore a b = (case (a, b) of (Some x, Some y) \<Rightarrow> x < y | _ \<Rightarrow> False)"

text \<open>\<open>a >= b\<close> on dates: false when \<open>a\<close> is invalid (\<open>b\<close> is the current time).\<close>

definition date_ge :: "jsdate \<Rightarrow> int \<Rightarrow> bool" where
  "date_ge a b = (case a of Some x \<Rightarrow> x \<ge> b | None \<Rightarrow> False)"

text \<open>\<open>parseInt(s)\<close> with no radix: leading white space, a sign, \<open>0x\<close> for base 16,
  then the longest run of digits; \<open>NaN\<close> (\<open>None\<close>) when there is none.\<close>

definition digit_value :: "jschar \<Rightarrow> nat option" where
  "digit_value c =
     (if 0x30 \<le> c \<and> c \<le> 0x39 then Some (unat c - 0x30)
      else if 0x61 \<le> c \<and> c \<le> 0x66 then Some (unat c - 0x61 + 10)
      else if 0x41 \<le> c \<and> c \<le> 0x46 then Some (unat c - 0x41 + 10)
      else None)"

definition is_digit :: "nat \<Rightarrow> jschar \<Rightarrow> bool" where
  "is_digit radix c = (case digit_value c of Some v \<Rightarrow> v < radix | None \<Rightarrow> False)"

definition parse_digits :: "nat \<Rightarrow> jsstring \<Rightarrow> int option" where
  "parse_digits radix s =
     (let ds = takeWhile (is_digit radix) s
      in if ds = [] then None
         else Some (int (foldl (\<lambda>acc c. acc * radix + the (digit_value c)) 0 ds)))"

definition parseInt :: "jsstring \<Rightarrow> int option" where
  "parseInt s =
     (let s1 = dropWhile is_space s;
          neg = starts_with (js ''-'') s1;
          s2 = (if starts_with (js ''-'') s1 \<or> starts_with (js ''+'') s1 then tl s1 else s1);
          hex = starts_with (js ''0x'') s2 \<or> starts_with (js ''0X'') s2;
          n = (if hex then parse_digits 16 (drop 2 s2) else parse_digits 10 s2)
      in map_option (\<lambda>v. if neg then - v else v) n)"

text \<open>\<open>s.split(':')[0]\<close>: the part before the first colon.\<close>

definition split_colon_0 :: "jsstring \<Rightarrow> jsstring" where
  "split_colon_0 s = takeWhile (\<lambda>c. c \<noteq> 0x3A) s"

text \<open>\<open>h > n\<close> with \<open>n\<close> possibly \<open>NaN\<close>.\<close>

definition num_gt :: "int \<Rightarrow> int option \<Rightarrow> bool" where
  "num_gt h n = (case n of Some v \<Rightarrow> h > v | None \<Rightarrow> False)"


section \<open>Raw records and display events\<close>

text \<open>
  The records of the API, with the fields that \<open>fetchEchoData\<close> reads. A field that may be
  missing (\<open>undefined\<close> or \<open>null\<close>) is an option; the code reads \<open>dates\<close>,
  \<open>venues\<close>, \<open>pictures\<close>, \<open>title\<close> and \<open>description\<close> without a guard, so their
  absence is part of the model. An object keyed by names (\<open>openingHours\<close>, \<open>title\<close>,
  \<open>description\<close>) is a map from the names. An entry of \<open>openingHours\<close> carries its
  \<open>from\<close> string, and \<open>id\<close> is the record's identifier as a string.
\<close>

record oh_entry =
  oh_from :: jsstring

type_synonym opening_hours = "string \<rightharpoonup> oh_entry"

record date_window =
  date_from :: jsdate
  date_to :: jsdate
  date_openingHours :: "opening_hours option"

record address =
  addr_number :: "jsstring option"
  addr_street :: "jsstring option"
  addr_postcode :: "jsstring option"
  addr_town :: "jsstring option"

record location =
  location_address :: "address option"

record venue =
  venue_location :: "location option"

record media =
  media_url :: "jsstring option"

record previews =
  previews_media :: "media option"

record picture =
  picture_previews :: "previews option"

record sales_contact =
  contact_name :: "jsstring option"
  contact_phone :: "jsstring option"
  contact_email :: "jsstring option"
  contact_website :: "jsstring option"

record raw_record =
  record_id :: jsstring
  record_dates :: "date_window list option"
  record_venues :: "venue list option"
  record_pictures :: "picture list option"
  record_title :: "(string \<rightharpoonup> jsstring) option"
  record_description :: "(string \<rightharpoonup> jsstring) option"
  record_salesContact :: "sales_contact option"

record event =
  event_id :: jsstring
  url :: jsstring
  title :: jsstring
  description :: jsstring
  date :: int
  dateString :: jsstring
  address :: jsstring
  imageUrl :: jsstring
  absoluteImageUrl :: jsstring
  initialDescription :: jsstring
  contactName :: "jsstring option"
  phone :: "jsstring option"
  email :: "jsstring option"
  website :: "jsstring option"
  rawRecord :: raw_record
  upcomingEvents :: "jsstring option"
  organizerInformation :: "jsstring option"

text \<open>The exceptions that the callback can throw, and the sequencing of steps that may
  throw: the first exception ends the computation.\<close>

datatype error = TypeError | RangeError

definition bind :: "error + 'a \<Rightarrow> ('a \<Rightarrow> error + 'b) \<Rightarrow> error + 'b" where
  "bind m f = (case m of Inl e \<Rightarrow> Inl e | Inr x \<Rightarrow> f x)"

text \<open>\<open>a || b\<close> and \<open>a ?? b\<close> on strings that may be missing: the empty string and a
  missing value are falsy.\<close>

definition truthy :: "jsstring option \<Rightarrow> bool" where
  "truthy a = (case a of Some s \<Rightarrow> s \<noteq> [] | None \<Rightarrow> False)"

definition or_else :: "jsstring option \<Rightarrow> jsstring option \<Rightarrow> jsstring option" where
  "or_else a b = (if truthy a then a else b)"

definition nullish_or :: "jsstring option \<Rightarrow> jsstring \<Rightarrow> jsstring" where
  "nullish_or a b = (case a of Some s \<Rightarrow> s | None \<Rightarrow> b)"

section \<open>The date window of a record\<close>

text \<open>The loop over \<open>record.dates\<close>: the state is the triple
  \<open>(dateFrom, dateTo, openingHours)\<close>, \<open>None\<close> while the variables are unassigned;
  \<open>len\<close> is \<open>record.dates.length\<close>.\<close>

type_synonym window = "jsdate \<times> jsdate \<times> opening_hours option"

fun dates_loop :: "int \<Rightarrow> nat \<Rightarrow> date_window list \<Rightarrow> window option \<Rightarrow> window option" where
  "dates_loop now len [] st = st"
| "dates_loop now len (dateObject # rest) st =
     (let dateFrom = date_from dateObject;
          dateTo = date_to dateObject;
          openingHours = date_openingHours dateObject
      in if date_ge dateFrom now \<or> len = 1 then Some (dateFrom, dateTo, openingHours)
         else dates_loop now len rest (Some (dateFrom, dateTo, openingHours)))"

text \<open>A \<open>Date\<close> object is truthy even when invalid, so \<open>!dateFrom || !dateTo\<close> holds
  only when the loop assigned nothing.\<close>

definition select_window :: "int \<Rightarrow> date_window list \<Rightarrow> window" where
  "select_window now ds =
     (case dates_loop now (length ds) ds None of
        None \<Rightarrow> (Some now, Some now, None)
      | Some w \<Rightarrow> w)"

section \<open>The next occurrence of a recurring event\<close>

definition daysOfWeek :: "string list" where
  "daysOfWeek =
     [''sunday'', ''monday'', ''tuesday'', ''wednesday'', ''thursday'', ''friday'', ''saturday'']"

text \<open>\<open>possibleDate\<close> for the weekday \<open>index\<close> whose entry opens at \<open>ohFrom\<close>.\<close>

definition candidate :: "int \<Rightarrow> int \<Rightarrow> nat \<Rightarrow> jsstring \<Rightarrow> int" where
  "candidate tz now index ohFrom =
     (let checkDate = addWeeks now 0;
          possibleDate = setDay tz checkDate index;
          possibleDate =
            (if index = getDay tz now \<and>
                num_gt (getHours tz now) (parseInt (split_colon_0 ohFrom))
             then addWeeks possibleDate 1 else possibleDate);
          possibleDate =
            (if index < getDay tz now then addWeeks possibleDate 1 else possibleDate)
      in possibleDate)"

text \<open>The range check against \<open>record.dates[0]\<close>.\<close>

definition in_range :: "date_window \<Rightarrow> int \<Rightarrow> bool" where
  "in_range first possibleDate \<longleftrightarrow>
     \<not> isBefore (Some possibleDate) (date_from first) \<and>
     \<not> isBefore (date_to first) (Some possibleDate)"

text \<open>The state of the search is \<open>(nextDate, nextTime)\<close>, both \<open>null\<close> at the start.
  \<open>try_day\<close> is the body of the inner loop for one \<open>[index, day]\<close>.\<close>

type_synonym next_state = "int option \<times> jsstring option"

definition try_day ::
  "int \<Rightarrow> int \<Rightarrow> date_window \<Rightarrow> opening_hours \<Rightarrow> next_state \<Rightarrow> nat \<times> string \<Rightarrow> next_state" where
  "try_day tz now first openingHours st entry =
     (case openingHours (snd entry) of
        None \<Rightarrow> st
      | Some oh \<Rightarrow>
          (let possibleDate = candidate tz now (fst entry) (oh_from oh)
           in if in_range first possibleDate then
                (if fst st = None \<or> isBefore (Some possibleDate) (fst st)
                 then (Some possibleDate, Some (oh_from oh)) else st)
              else st))"

definition week_loop ::
  "int \<Rightarrow> int \<Rightarrow> date_window \<Rightarrow> opening_hours \<Rightarrow> next_state \<Rightarrow> next_state" where
  "week_loop tz now first openingHours st =
     foldl (try_day tz now first openingHours) st (enumerate 0 daysOfWeek)"

text \<open>The outer loop runs the inner one seven times, for \<open>i\<close> from 0 to 6.\<close>

definition next_occurrence ::
  "int \<Rightarrow> int \<Rightarrow> date_window \<Rightarrow> opening_hours \<Rightarrow> next_state" where
  "next_occurrence tz now first openingHours =
     ((week_loop tz now first openingHours) ^^ 7) (None, None)"

section \<open>The date and its label\<close>

text \<open>
  The assignment of \<open>dateString\<close> and \<open>date\<close>; the result is the pair of the two.
  \<open>format\<close> throws a \<open>RangeError\<close> on an invalid date. The fallback of the recurring
  branch formats \<open>dateFrom\<close> and \<open>dateTo\<close>, and the non-recurring branch formats both
  before it chooses the label, so each of the two yields a result exactly when both dates are
  valid. \<open>record.dates[0]\<close> exists whenever \<open>openingHours\<close> is set, since the fallback
  window has none. \<open>nextDate && nextTime\<close> fails for an empty opening time as well.
\<close>

definition from_to_string :: "int \<Rightarrow> int \<Rightarrow> int \<Rightarrow> jsstring" where
  "from_to_string tz dateFrom dateTo =
     js ''From '' @ fmt_date tz dateFrom @ js '' to '' @ fmt_date tz dateTo"

definition non_recurring_string :: "int \<Rightarrow> string \<Rightarrow> int \<Rightarrow> int \<Rightarrow> jsstring" where
  "non_recurring_string tz lang dateFrom dateTo =
     (let timeDiff = dateTo - dateFrom;
          moreThan24Hours = (timeDiff > 24 * 60 * 60 * 1000);
          day = fmt_weekday lang tz dateFrom;
          startDate = fmt_date tz dateFrom;
          endDate = fmt_date tz dateTo;
          startTime = fmt_time tz dateFrom;
          endTime = fmt_time tz dateTo
      in if moreThan24Hours then js ''From '' @ startDate @ js '' to '' @ endDate
         else if startDate = endDate then day @ js '', '' @ startDate @ js '', '' @ startTime
         else day @ js '', '' @ startDate @ js '', '' @ startTime @ js ''-'' @ endTime)"

definition date_info ::
  "int \<Rightarrow> string \<Rightarrow> int \<Rightarrow> date_window list \<Rightarrow> error + (jsstring \<times> int)" where
  "date_info tz lang now ds =
     (case select_window now ds of (dateFrom, dateTo, openingHours) \<Rightarrow>
        (case openingHours of
           Some oh \<Rightarrow>
             (case ds of
                [] \<Rightarrow> Inl TypeError
              | first # _ \<Rightarrow>
                  (let fallback =
                         (case (dateFrom, dateTo) of
                            (Some f, Some t) \<Rightarrow> Inr (from_to_string tz f t, f)
                          | _ \<Rightarrow> Inl RangeError)
                   in case next_occurrence tz now first oh of
                        (Some nextDate, Some nextTime) \<Rightarrow>
                          if nextTime \<noteq> [] then
                            Inr (fmt_weekday lang tz nextDate @ js '', '' @
                                 fmt_date tz nextDate @ js '', '' @ nextTime, nextDate)
                          else fallback
                      | _ \<Rightarrow> fallback))
         | None \<Rightarrow>
             (case (dateFrom, dateTo) of
                (Some f, Some t) \<Rightarrow> Inr (non_recurring_string tz lang f t, f)
              | _ \<Rightarrow> Inl RangeError)))"

section \<open>Normalizing a record\<close>

definition placeholder :: jsstring where
  "placeholder = [0xC9] @ js ''v'' @ [0xE9] @ js ''nement''"

definition resolve :: "string \<Rightarrow> (string \<rightharpoonup> jsstring) \<Rightarrow> jsstring \<Rightarrow> jsstring" where
  "resolve lang m dflt =
     nullish_or
       (or_else (m lang) (or_else (m ''fr'') (or_else (m ''de'') (or_else (m ''en'') (Some dflt)))))
       dflt"

definition upcomingEventsTranslation :: "string \<rightharpoonup> jsstring" where
  "upcomingEventsTranslation =
     [''fr'' \<mapsto> [0xC9] @ js ''v'' @ [0xE9] @ js ''nements '' @ [0xE0] @ js '' venir'',
      ''de'' \<mapsto> js ''Kommende Ereignisse'',
      ''en'' \<mapsto> js ''Upcoming Events'']"

definition organizerTranslation :: "string \<rightharpoonup> jsstring" where
  "organizerTranslation =
     [''fr'' \<mapsto> js ''Informations sur l'' @ [0x27] @ js ''organisateur'',
      ''de'' \<mapsto> js ''Infos zum Organisator'',
      ''en'' \<mapsto> js ''Organizer Information'']"

definition image_url :: "picture list \<Rightarrow> jsstring" where
  "image_url pictures =
     (case pictures of
        [] \<Rightarrow> []
      | p # _ \<Rightarrow>
          nullish_or
            (or_else (Option.bind (Option.bind (picture_previews p) previews_media) media_url)
               (Some []))
            [])"

definition absolute_url :: "jsstring \<Rightarrow> jsstring" where
  "absolute_url imageUrl' =
     (if imageUrl' \<noteq> [] then
        (if starts_with (js ''http'') imageUrl' then imageUrl'
         else js ''https://echo.lu'' @ imageUrl')
      else [])"

definition address_of :: "venue list \<Rightarrow> jsstring" where
  "address_of venues =
     (let venue = (case venues of [] \<Rightarrow> None | v # _ \<Rightarrow> Some v);
          addr = Option.bind (Option.bind venue venue_location) location_address;
          number = nullish_or (Option.bind addr addr_number) [];
          street = nullish_or (Option.bind addr addr_street) [];
          postcode = nullish_or (Option.bind addr addr_postcode) [];
          town = nullish_or (Option.bind addr addr_town) []
      in number @ js '' '' @ street @ js '', '' @ postcode @ js '' '' @ town)"

text \<open>Reading a property of a missing object throws a \<open>TypeError\<close>.\<close>

definition required :: "'a option \<Rightarrow> error + 'a" where
  "required x = (case x of None \<Rightarrow> Inl TypeError | Some v \<Rightarrow> Inr v)"

text \<open>The callback of \<open>data.records.map\<close>, in the order of the source; \<open>now\<close> is the
  value of \<open>new Date()\<close> at its start.\<close>

definition normalize :: "int \<Rightarrow> string \<Rightarrow> int \<Rightarrow> raw_record \<Rightarrow> error + event" where
  "normalize tz lang now r =
     bind (required (record_dates r)) (\<lambda>ds.
     bind (date_info tz lang now ds) (\<lambda>(dateString', date').
     bind (required (record_venues r)) (\<lambda>venues.
     bind (required (record_pictures r)) (\<lambda>pictures.
     bind (required (record_title r)) (\<lambda>title'.
     bind (required (record_description r)) (\<lambda>description'.
       (let id' = record_id r;
            address' = address_of venues;
            imageUrl' = image_url pictures;
            salesContact = record_salesContact r;
            initialDescription' = resolve lang description' []
        in Inr \<lparr> event_id = id',
                 url = js ''https://www.echo.lu/en/experiences/'' @ id',
                 title = resolve lang title' placeholder,
                 description = sanitize initialDescription',
                 date = date',
                 dateString = dateString',
                 address = address',
                 imageUrl = imageUrl',
                 absoluteImageUrl = absolute_url imageUrl',
                 initialDescription = initialDescription',
                 contactName = Option.bind salesContact contact_name,
                 phone = Option.bind salesContact contact_phone,
                 email = Option.bind salesContact contact_email,
                 website = Option.bind salesContact contact_website,
                 rawRecord = r,
                 upcomingEvents = upcomingEventsTranslation lang,
                 organizerInformation = organizerTranslation lang \<rparr>)))))))"

section \<open>The list of events\<close>

text \<open>\<open>data.records.map(...)\<close>: the callback runs on the records in order, each with its
  own reading of the clock (\<open>clock i\<close> for the record at index \<open>i\<close>); an exception in one
  call ends the whole map.\<close>

fun map_records ::
  "(nat \<Rightarrow> raw_record \<Rightarrow> error + event) \<Rightarrow> nat \<Rightarrow> raw_record list \<Rightarrow> error + event list" where
  "map_records f i [] = Inr []"
| "map_records f i (r # rs) =
     bind (f i r) (\<lambda>e. bind (map_records f (Suc i) rs) (\<lambda>es. Inr (e # es)))"

text \<open>\<open>Array.prototype.sort\<close> with a comparison function: a stable sort, an element
  staying before a later one unless the function puts it behind (a positive result).\<close>

definition compareFn :: "event \<Rightarrow> event \<Rightarrow> int" where
  "compareFn a b = date a - date b"

fun insert_by :: "('a \<Rightarrow> 'a \<Rightarrow> int) \<Rightarrow> 'a \<Rightarrow> 'a list \<Rightarrow> 'a list" where
  "insert_by cmp x [] = [x]"
| "insert_by cmp x (y # ys) =
     (if cmp x y \<le> 0 then x # y # ys else y # insert_by cmp x ys)"

definition sort_by :: "('a \<Rightarrow> 'a \<Rightarrow> int) \<Rightarrow> 'a list \<Rightarrow> 'a list" where
  "sort_by cmp xs = foldr (insert_by cmp) xs []"

definition normalize_records ::
  "int \<Rightarrow> string \<Rightarrow> (nat \<Rightarrow> int) \<Rightarrow> raw_record list \<Rightarrow> error + event list" where
  "normalize_records tz lang clock records =
     bind (map_records (\<lambda>i. normalize tz lang (clock i)) 0 records) (\<lambda>events.
       Inr (filter (\<lambda>event. absoluteImageUrl event \<noteq> []) (sort_by compareFn events)))"

section \<open>Reference definitions\<close>

text \<open>
  The specification speaks of the valid candidates of a recurring event and of the earliest
  of them. \<open>accepted\<close> lists, in the order of \<open>daysOfWeek\<close>, the candidates that pass
  the range check, each with its opening time; \<open>earliest\<close> is the first element of a list
  whose date is the minimum. \<open>keep_earlier\<close> is the update of \<open>try_day\<close> on its own.
\<close>

definition accepted_of ::
  "int \<Rightarrow> int \<Rightarrow> date_window \<Rightarrow> opening_hours \<Rightarrow> (nat \<times> string) list \<Rightarrow> (int \<times> jsstring) list" where
  "accepted_of tz now first openingHours entries =
     concat (map (\<lambda>entry.
       case openingHours (snd entry) of
         None \<Rightarrow> []
       | Some oh \<Rightarrow>
           (if in_range first (candidate tz now (fst entry) (oh_from oh))
            then [(candidate tz now (fst entry) (oh_from oh), oh_from oh)] else [])) entries)"

definition accepted ::
  "int \<Rightarrow> int \<Rightarrow> date_window \<Rightarrow> opening_hours \<Rightarrow> (int \<times> jsstring) list" where
  "accepted tz now first openingHours =
     accepted_of tz now first openingHours (enumerate 0 daysOfWeek)"

definition earliest :: "(int \<times> jsstring) list \<Rightarrow> (int \<times> jsstring) option" where
  "earliest xs = (if xs = [] then None else find (\<lambda>x. fst x = Min (fst ` set xs)) xs)"

definition keep_earlier :: "next_state \<Rightarrow> int \<times> jsstring \<Rightarrow> next_state" where
  "keep_earlier st x =
     (if fst st = None \<or> isBefore (Some (fst x)) (fst st) then (Some (fst x), Some (snd x))
      else st)"

text \<open>
  The fallback chain of the specification: the first value of a list that is present and
  not empty, else the default.
\<close>

fun first_nonempty :: "jsstring option list \<Rightarrow> jsstring \<Rightarrow> jsstring" where
  "first_nonempty [] dflt = dflt"
| "first_nonempty (None # xs) dflt = first_nonempty xs dflt"
| "first_nonempty (Some s # xs) dflt = (if s \<noteq> [] then s else first_nonempty xs dflt)"

text \<open>
  A record has its containers when the five properties that the code reads without a
  guard are present; it is well formed when, moreover, every date window holds two valid
  timestamps.
\<close>

definition has_containers :: "raw_record \<Rightarrow> bool" where
  "has_containers r \<longleftrightarrow>
     record_dates r \<noteq> None \<and> record_venues r \<noteq> None \<and> record_pictures r \<noteq> None \<and>
     record_title r \<noteq> None \<and> record_description r \<noteq> None"

definition valid_window :: "date_window \<Rightarrow> bool" where
  "valid_window d \<longleftrightarrow> date_from d \<noteq> None \<and> date_to d \<noteq> None"

definition well_formed :: "raw_record \<Rightarrow> bool" where
  "well_formed r \<longleftrightarrow>
     (case record_dates r of None \<Rightarrow> False | Some ds \<Rightarrow> list_all valid_window ds) \<and>
     record_venues r \<noteq> None \<and> record_pictures r \<noteq> None \<and>
     record_title r \<noteq> None \<and> record_description r \<noteq> None"



section \<open>Example inputs\<close>

text \<open>
  \<open>wednesday\<close> is 2025-01-01T00:00:00Z, a Wednesday; the examples run in a zone of
  offset 0. A clock is the sequence of the values of \<open>new Date()\<close>, one for each record.
\<close>

definition wednesday :: int where
  "wednesday = 1735689600000"

definition hours :: "int \<Rightarrow> int" where
  "hours n = n * 3600000"

definition window :: "int \<Rightarrow> int \<Rightarrow> opening_hours option \<Rightarrow> date_window" where
  "window f t oh = \<lparr> date_from = Some f, date_to = Some t, date_openingHours = oh \<rparr>"

definition opens :: "string \<Rightarrow> string \<Rightarrow> opening_hours" where
  "opens day f = [day \<mapsto> \<lparr> oh_from = js f \<rparr>]"

definition year_2025 :: "opening_hours option \<Rightarrow> date_window" where
  "year_2025 oh = window wednesday (wednesday + 365 * msPerDay) oh"

definition december_2024 :: "opening_hours option \<Rightarrow> date_window" where
  "december_2024 oh = window (wednesday - 31 * msPerDay) (wednesday - 1) oh"

definition with_url :: "string \<Rightarrow> picture" where
  "with_url u =
     \<lparr> picture_previews = Some \<lparr> previews_media = Some \<lparr> media_url = Some (js u) \<rparr> \<rparr> \<rparr>"

definition example_record :: "string \<Rightarrow> date_window list \<Rightarrow> picture list \<Rightarrow> raw_record" where
  "example_record i ds ps =
     \<lparr> record_id = js i, record_dates = Some ds, record_venues = Some [],
       record_pictures = Some ps, record_title = Some [''de'' \<mapsto> js ''Konzert''],
       record_description = Some Map.empty, record_salesContact = None \<rparr>"

definition example_batch :: "raw_record list" where
  "example_batch =
     [example_record ''a'' [window 1000 2000 None] [with_url ''/a.png''],
      example_record ''b'' [window 3000 4000 None] [with_url ''http://x/b.png''],
      example_record ''c'' [window 2000 2500 None] [with_url ''/c.png''],
      example_record ''d'' [window 500 600 None] []]"


definition bare_record :: raw_record where
  "bare_record =
     \<lparr> record_id = js ''f'', record_dates = Some [], record_venues = Some [],
       record_pictures = Some [], record_title = Some Map.empty,
       record_description = Some Map.empty, record_salesContact = None \<rparr>"

definition mid_january :: "opening_hours option \<Rightarrow> date_window" where
  "mid_january oh = window (wednesday + 10 * msPerDay) (wednesday + 20 * msPerDay) oh"


definition no_previews :: picture where
  "no_previews = \<lparr> picture_previews = None \<rparr>"

definition no_media :: picture where
  "no_media = \<lparr> picture_previews = Some \<lparr> previews_media = None \<rparr> \<rparr>"

definition no_url :: picture where
  "no_url = \<lparr> picture_previews = Some \<lparr> previews_media = Some \<lparr> media_url = None \<rparr> \<rparr> \<rparr>"



definition partial_record :: raw_record where
  "partial_record =
     \<lparr> record_id = js ''h'', record_dates = Some [window 1000 2000 None],
       record_venues = Some
         [\<lparr> venue_location = Some \<lparr> location_address = Some
              \<lparr> addr_number = None, addr_street = Some (js ''Rue X''), addr_postcode = None,
                addr_town = Some (js ''Esch'') \<rparr> \<rparr> \<rparr>],
       record_pictures = Some [no_url],
       record_title = Some [''fr'' \<mapsto> []], record_description = Some Map.empty,
       record_salesContact = Some
         \<lparr> contact_name = Some (js ''N''), contact_phone = None, contact_email = None,
           contact_website = None \<rparr> \<rparr>"

definition preview_batch :: "raw_record list" where
  "preview_batch =
     [example_record ''a'' [window 1000 2000 None] [with_url ''/a.png''],
      example_record ''b'' [window 3000 4000 None] [with_url ''http://x/b.png''],
      example_record ''c'' [window 2000 2500 None] [with_url ''/c.png'', no_previews],
      example_record ''d'' [window 500 600 None] [],
      example_record ''e'' [window 1500 1600 None] [no_previews, with_url ''/e.png''],
      example_record ''f'' [window 2500 2600 None] [no_media],
      example_record ''g'' [window 700 800 None] [no_url],
      example_record ''h'' [window 900 950 None] [with_url '''']]"

definition fixed_clock :: "int \<Rightarrow> nat \<Rightarrow> int" where
  "fixed_clock now i = now"

definition late_clock :: "nat \<Rightarrow> nat \<Rightarrow> int" where
  "late_clock n i = (if i < n then 0 else 1)"

section \<open>Properties of the model\<close>

subsection \<open>The normalizer and its errors\<close>

lemma normalize_Inr:
  "normalize tz lang now r = Inr e \<longleftrightarrow>
     (\<exists>ds s d vs ps t dsc.
        record_dates r = Some ds \<and> date_info tz lang now ds = Inr (s, d) \<and>
        record_venues r = Some vs \<and> record_pictures r = Some ps \<and>
        record_title r = Some t \<and> record_description r = Some dsc \<and>
        e = \<lparr> event_id = record_id r,
              url = js ''https://www.echo.lu/en/experiences/'' @ record_id r,
              title = resolve lang t placeholder,
              description = sanitize (resolve lang dsc []),
              date = d,
              dateString = s,
              address = address_of vs,
              imageUrl = image_url ps,
              absoluteImageUrl = absolute_url (image_url ps),
              initialDescription = resolve lang dsc [],
              contactName = Option.bind (record_salesContact r) contact_name,
              phone = Option.bind (record_salesContact r) contact_phone,
              email = Option.bind (record_salesContact r) contact_email,
              website = Option.bind (record_salesContact r) contact_website,
              rawRecord = r,
              upcomingEvents = upcomingEventsTranslation lang,
              organizerInformation = organizerTranslation lang \<rparr>)"
  by (auto simp: normalize_def bind_def required_def Let_def split: option.splits sum.splits prod.splits)

lemma well_formed_containers: "well_formed r \<Longrightarrow> has_containers r"
  by (auto simp: well_formed_def has_containers_def split: option.splits)


lemma placeholder_units:
  "placeholder = [0xC9, 0x76, 0xE9, 0x6E, 0x65, 0x6D, 0x65, 0x6E, 0x74]"
  by (simp add: placeholder_def js_def)

lemma image_url_Nil: "image_url [] = []"
  by (simp add: image_url_def)

lemma image_url_Cons:
  "image_url (p # ps) =
     (case picture_previews p of
        None \<Rightarrow> []
      | Some pv \<Rightarrow>
          (case previews_media pv of
             None \<Rightarrow> []
           | Some m \<Rightarrow> (case media_url m of None \<Rightarrow> [] | Some u \<Rightarrow> u)))"
  by (auto simp: image_url_def or_else_def truthy_def nullish_or_def split: option.splits)

lemma image_url_nonempty:
  "image_url ps \<noteq> [] \<longleftrightarrow>
     (\<exists>p ps' pv m u. ps = p # ps' \<and> picture_previews p = Some pv \<and> previews_media pv = Some m \<and>
        media_url m = Some u \<and> u \<noteq> [])"
  by (cases ps) (auto simp: image_url_Nil image_url_Cons split: option.splits)

subsection \<open>The date window\<close>

lemma dates_loop_one:
  "dates_loop now (Suc 0) ds st =
     (case ds of [] \<Rightarrow> st | d # _ \<Rightarrow> Some (date_from d, date_to d, date_openingHours d))"
  by (cases ds) (simp_all add: Let_def)

lemma dates_loop_many:
  "len \<noteq> Suc 0 \<Longrightarrow>
   dates_loop now len ds st =
     (case find (\<lambda>d. date_ge (date_from d) now) ds of
        Some d \<Rightarrow> Some (date_from d, date_to d, date_openingHours d)
      | None \<Rightarrow> (if ds = [] then st
                 else Some (date_from (last ds), date_to (last ds), date_openingHours (last ds))))"
  by (induction ds arbitrary: st) (auto simp: Let_def split: option.splits)

lemma select_window_mem:
  "select_window now ds = (Some now, Some now, None) \<and> ds = [] \<or>
   (\<exists>d \<in> set ds. select_window now ds = (date_from d, date_to d, date_openingHours d))"
proof (cases "length ds = Suc 0")
  case True
  then obtain x where ds: "ds = [x]" by (cases ds) auto
  show ?thesis by (simp add: ds select_window_def Let_def)
next
  case False
  show ?thesis
  proof (cases "find (\<lambda>d. date_ge (date_from d) now) ds")
    case None
    then show ?thesis
      using False by (cases "ds = []") (auto simp: select_window_def dates_loop_many)
  next
    case (Some d)
    then have "d \<in> set ds" by (auto simp: find_Some_iff)
    then show ?thesis
      using False Some by (auto simp: select_window_def dates_loop_many)
  qed
qed

subsection \<open>The search for the next occurrence\<close>

text \<open>
  One pass over the week keeps the earliest accepted candidate, the first one among equal
  dates; a further pass changes nothing, so the seven passes of the outer loop give the
  result of the first.
\<close>

text \<open>The weekday is an index into the seven names of a locale.\<close>

lemma getDay_less: "getDay tz t < 7"
  by (simp add: getDay_def nat_less_iff)

lemma candidate_advance:
  "candidate tz now i f =
     (if (i = getDay tz now \<and> num_gt (getHours tz now) (parseInt (split_colon_0 f))) \<or>
         i < getDay tz now
      then addWeeks (setDay tz now i) 1 else setDay tz now i)"
  by (auto simp: candidate_def Let_def addWeeks_def addDays_def)

lemma in_range_closed:
  "date_from first = Some f \<Longrightarrow> date_to first = Some t \<Longrightarrow>
   in_range first p \<longleftrightarrow> f \<le> p \<and> p \<le> t"
  by (auto simp: in_range_def isBefore_def)

lemma foldl_try_day:
  "foldl (try_day tz now first oh) st entries =
     foldl keep_earlier st (accepted_of tz now first oh entries)"
  by (induction entries arbitrary: st)
     (auto simp: accepted_of_def try_day_def keep_earlier_def Let_def split: option.splits)

lemma find_fst_Min:
  assumes "xs \<noteq> []"
  shows "\<exists>y. find (\<lambda>y. fst y = Min (fst ` set xs)) xs = Some y"
proof -
  have "Min (fst ` set xs) \<in> fst ` set xs"
    using assms by (intro Min_in) simp_all
  then obtain y where y: "y \<in> set xs" "fst y = Min (fst ` set xs)" by auto
  have "find (\<lambda>y. fst y = Min (fst ` set xs)) xs \<noteq> None"
    using y by (subst find_None_iff) blast
  then show ?thesis by blast
qed

lemma earliest_None_iff: "earliest xs = None \<longleftrightarrow> xs = []"
  using find_fst_Min [of xs] by (auto simp: earliest_def)

lemma earliest_SomeD:
  assumes "earliest xs = Some x"
  shows "x \<in> set xs" and "\<forall>y \<in> set xs. fst x \<le> fst y"
proof -
  from assms have ne: "xs \<noteq> []" and f: "find (\<lambda>y. fst y = Min (fst ` set xs)) xs = Some x"
    by (auto simp: earliest_def split: if_splits)
  from f have m: "fst x = Min (fst ` set xs)" and "x \<in> set xs"
    by (auto simp: find_Some_iff in_set_conv_nth)
  then show "x \<in> set xs" by simp
  show "\<forall>y \<in> set xs. fst x \<le> fst y"
    by (simp add: m)
qed

lemma Min_insert_ge:
  fixes q a :: int
  assumes "finite S" and "q \<le> a"
  shows "Min (insert q (insert a S)) = Min (insert q S)"
proof (rule Min_eqI)
  show "finite (insert q (insert a S))" using assms by simp
  have le: "Min (insert q S) \<le> q" using assms by (intro Min_le) simp_all
  show "Min (insert q S) \<le> y" if "y \<in> insert q (insert a S)" for y
  proof (cases "y = a")
    case True
    with le assms show ?thesis by linarith
  next
    case False
    with that have "y \<in> insert q S" by blast
    then show ?thesis using assms by (intro Min_le) simp_all
  qed
  have "Min (insert q S) \<in> insert q S" using assms by (intro Min_in) simp_all
  then show "Min (insert q S) \<in> insert q (insert a S)" by blast
qed

lemma foldl_keep_earlier_Some:
  "foldl keep_earlier (Some q, Some tq) xs =
     (let m = Min (insert q (fst ` set xs))
      in if m = q then (Some q, Some tq)
         else (case find (\<lambda>x. fst x = m) xs of
                 Some x \<Rightarrow> (Some (fst x), Some (snd x))
               | None \<Rightarrow> (None, None)))"
proof (induction xs arbitrary: q tq)
  case Nil
  then show ?case by simp
next
  case (Cons x xs)
  let ?S = "fst ` set xs"
  have fin: "finite ?S" by simp
  have set: "fst ` set (x # xs) = insert (fst x) ?S" by simp
  show ?case
  proof (cases "fst x < q")
    case True
    define m where "m = Min (insert (fst x) ?S)"
    have "Min (insert (fst x) (insert q ?S)) = m"
      unfolding m_def using True by (intro Min_insert_ge fin) simp
    then have m: "Min (insert q (insert (fst x) ?S)) = m"
      by (simp only: insert_commute)
    have le: "m \<le> fst x" unfolding m_def using fin by (intro Min_le) simp_all
    with True have ne: "m \<noteq> q" by linarith
    have st: "keep_earlier (Some q, Some tq) x = (Some (fst x), Some (snd x))"
      using True by (simp add: keep_earlier_def isBefore_def)
    have L: "foldl keep_earlier (Some q, Some tq) (x # xs) =
       (if m = fst x then (Some (fst x), Some (snd x))
         else (case find (\<lambda>y. fst y = m) xs of
                 Some y \<Rightarrow> (Some (fst y), Some (snd y))
               | None \<Rightarrow> (None, None)))"
      unfolding m_def by (simp only: foldl.simps st Cons.IH Let_def)
    have R: "(let m = Min (insert q (fst ` set (x # xs)))
      in if m = q then (Some q, Some tq)
         else (case find (\<lambda>x. fst x = m) (x # xs) of
                 Some x \<Rightarrow> (Some (fst x), Some (snd x))
               | None \<Rightarrow> (None, None))) =
        (case find (\<lambda>y. fst y = m) (x # xs) of
                 Some x \<Rightarrow> (Some (fst x), Some (snd x))
               | None \<Rightarrow> (None, None))"
      using ne by (simp only: set m Let_def if_False)
    show ?thesis
      unfolding L R by (cases "m = fst x") auto
  next
    case False
    define m where "m = Min (insert q ?S)"
    have m: "Min (insert q (insert (fst x) ?S)) = m"
      unfolding m_def using False by (intro Min_insert_ge fin) simp
    have le: "m \<le> q" unfolding m_def using fin by (intro Min_le) simp_all
    have st: "keep_earlier (Some q, Some tq) x = (Some q, Some tq)"
      using False by (simp add: keep_earlier_def isBefore_def)
    have L: "foldl keep_earlier (Some q, Some tq) (x # xs) =
       (if m = q then (Some q, Some tq)
         else (case find (\<lambda>y. fst y = m) xs of
                 Some y \<Rightarrow> (Some (fst y), Some (snd y))
               | None \<Rightarrow> (None, None)))"
      unfolding m_def by (simp only: foldl.simps st Cons.IH Let_def)
    have R: "(let m = Min (insert q (fst ` set (x # xs)))
      in if m = q then (Some q, Some tq)
         else (case find (\<lambda>x. fst x = m) (x # xs) of
                 Some x \<Rightarrow> (Some (fst x), Some (snd x))
               | None \<Rightarrow> (None, None))) =
        (if m = q then (Some q, Some tq)
         else (case find (\<lambda>y. fst y = m) (x # xs) of
                 Some x \<Rightarrow> (Some (fst x), Some (snd x))
               | None \<Rightarrow> (None, None)))"
      by (simp only: set m Let_def)
    have "m \<noteq> q \<Longrightarrow> fst x \<noteq> m" using le False by linarith
    then show ?thesis
      unfolding L R by auto
  qed
qed

lemma foldl_keep_earlier_None:
  "foldl keep_earlier (None, None) xs =
     (case earliest xs of None \<Rightarrow> (None, None) | Some x \<Rightarrow> (Some (fst x), Some (snd x)))"
proof (cases xs)
  case Nil
  then show ?thesis by (simp add: earliest_def)
next
  case (Cons x xs')
  define m where "m = Min (insert (fst x) (fst ` set xs'))"
  have set: "fst ` set (x # xs') = insert (fst x) (fst ` set xs')" by simp
  have st: "keep_earlier (None, None) x = (Some (fst x), Some (snd x))"
    by (simp add: keep_earlier_def)
  have L: "foldl keep_earlier (None, None) (x # xs') =
       (if m = fst x then (Some (fst x), Some (snd x))
         else (case find (\<lambda>y. fst y = m) xs' of
                 Some y \<Rightarrow> (Some (fst y), Some (snd y))
               | None \<Rightarrow> (None, None)))"
    unfolding m_def by (simp only: foldl.simps st foldl_keep_earlier_Some Let_def)
  have R: "earliest (x # xs') = find (\<lambda>y. fst y = m) (x # xs')"
    unfolding m_def by (simp only: earliest_def set list.distinct if_False)
  show ?thesis
    unfolding Cons L R by (cases "m = fst x") auto
qed

lemma foldl_keep_earlier_idem:
  "foldl keep_earlier (foldl keep_earlier (None, None) xs) xs = foldl keep_earlier (None, None) xs"
proof (cases "earliest xs")
  case None
  then have "xs = []" by (simp add: earliest_None_iff)
  then show ?thesis by simp
next
  case (Some x)
  have "Min (insert (fst x) (fst ` set xs)) = fst x"
    using earliest_SomeD [OF Some] by (intro Min_eqI) auto
  then show ?thesis
    by (simp add: foldl_keep_earlier_None Some foldl_keep_earlier_Some Let_def)
qed

lemma next_occurrence_earliest:
  "next_occurrence tz now first oh =
     (case earliest (accepted tz now first oh) of
        None \<Rightarrow> (None, None)
      | Some x \<Rightarrow> (Some (fst x), Some (snd x)))"
proof -
  let ?xs = "accepted tz now first oh"
  let ?W = "week_loop tz now first oh"
  have W: "?W st = foldl keep_earlier st ?xs" for st
    by (simp add: week_loop_def foldl_try_day accepted_def)
  let ?s = "foldl keep_earlier (None, None) ?xs"
  have 1: "?W (None, None) = ?s" by (simp add: W)
  have 2: "?W ?s = ?s" by (simp add: W foldl_keep_earlier_idem)
  have "(?W ^^ n) ?s = ?s" for n by (induction n) (simp_all add: 2)
  then have "(?W ^^ 6) (?W (None, None)) = ?s" by (simp only: 1)
  moreover have "(?W ^^ 7) (None, None) = (?W ^^ 6) (?W (None, None))"
    by (simp add: numeral_eq_Suc funpow_swap1)
  ultimately show ?thesis
    by (simp add: next_occurrence_def foldl_keep_earlier_None)
qed

lemma date_info_recurring:
  assumes "ds = first # rest" and "select_window now ds = (dateFrom, dateTo, Some oh)"
  shows "date_info tz lang now ds =
     (let fallback =
            (case (dateFrom, dateTo) of
               (Some f, Some t) \<Rightarrow> Inr (from_to_string tz f t, f)
             | _ \<Rightarrow> Inl RangeError)
      in case earliest (accepted tz now first oh) of
           None \<Rightarrow> fallback
         | Some x \<Rightarrow>
             if snd x \<noteq> [] then
               Inr (fmt_weekday lang tz (fst x) @ js '', '' @ fmt_date tz (fst x) @ js '', '' @
                    snd x, fst x)
             else fallback)"
  using assms
  by (simp add: date_info_def next_occurrence_earliest Let_def split: option.splits)

lemma date_info_defined:
  assumes "list_all valid_window ds"
  shows "\<exists>s d. date_info tz lang now ds = Inr (s, d)"
proof -
  obtain f t oh where w: "select_window now ds = (Some f, Some t, oh)"
    using select_window_mem [of now ds] assms
    by (auto simp: list_all_iff valid_window_def)
  show ?thesis
  proof (cases oh)
    case None
    then show ?thesis by (simp add: date_info_def w)
  next
    case (Some o')
    with w have "ds \<noteq> []" using select_window_mem [of now ds] by auto
    then obtain first rest where "ds = first # rest" by (cases ds) auto
    then show ?thesis
      using w Some by (auto simp: date_info_def Let_def split: prod.splits option.splits)
  qed
qed



lemma normalize_defined:
  assumes "well_formed r"
  shows "\<exists>e. normalize tz lang now r = Inr e"
proof -
  from assms obtain ds vs ps t dsc where r: "record_dates r = Some ds" "list_all valid_window ds"
    "record_venues r = Some vs" "record_pictures r = Some ps" "record_title r = Some t"
    "record_description r = Some dsc"
    by (auto simp: well_formed_def split: option.splits)
  from date_info_defined [OF r(2)] obtain s d where "date_info tz lang now ds = Inr (s, d)"
    by blast
  with r show ?thesis by (simp add: normalize_Inr)
qed


subsection \<open>Mapping, sorting and filtering\<close>

lemma map_records_defined:
  assumes "\<And>i r. r \<in> set rs \<Longrightarrow> \<exists>e. f i r = Inr e"
  shows "\<exists>es. map_records f i rs = Inr es"
  using assms
proof (induction rs arbitrary: i)
  case Nil
  then show ?case by simp
next
  case (Cons r rs)
  obtain e where e: "f i r = Inr e" using Cons.prems [of r i] by auto
  obtain es where es: "map_records f (Suc i) rs = Inr es"
    using Cons.IH [of "Suc i"] Cons.prems by auto
  show ?case by (simp add: e es bind_def)
qed

lemma map_records_Inr:
  "map_records f i rs = Inr es \<Longrightarrow>
   length es = length rs \<and> (\<forall>k < length rs. f (i + k) (rs ! k) = Inr (es ! k))"
proof (induction rs arbitrary: i es)
  case Nil
  then show ?case by simp
next
  case (Cons r rs)
  from Cons.prems obtain e es' where e: "f i r = Inr e" and es': "map_records f (Suc i) rs = Inr es'"
    and es: "es = e # es'"
    by (auto simp: bind_def split: sum.splits)
  from Cons.IH [OF es'] have ih: "length es' = length rs"
    "\<forall>k < length rs. f (Suc i + k) (rs ! k) = Inr (es' ! k)" by auto
  show ?case
  proof (intro conjI allI impI)
    show "length es = length (r # rs)" by (simp add: es ih)
    fix k assume "k < length (r # rs)"
    then show "f (i + k) ((r # rs) ! k) = Inr (es ! k)"
      using e ih(2) by (cases k) (auto simp: es)
  qed
qed

lemma map_records_cong:
  assumes "\<And>k. k < length rs \<Longrightarrow> f (i + k) (rs ! k) = g (i + k) (rs ! k)"
  shows "map_records f i rs = map_records g i rs"
  using assms
proof (induction rs arbitrary: i)
  case Nil
  then show ?case by simp
next
  case (Cons r rs)
  have 1: "f i r = g i r" using Cons.prems [of 0] by simp
  have 2: "map_records f (Suc i) rs = map_records g (Suc i) rs"
  proof (rule Cons.IH)
    fix k assume "k < length rs"
    then show "f (Suc i + k) (rs ! k) = g (Suc i + k) (rs ! k)"
      using Cons.prems [of "Suc k"] by simp
  qed
  show ?case by (simp add: 1 2)
qed



lemma normalize_records_defined:
  assumes "\<forall>r \<in> set rs. well_formed r"
  shows "\<exists>out. normalize_records tz lang clock rs = Inr out"
proof -
  have "\<exists>es. map_records (\<lambda>i. normalize tz lang (clock i)) 0 rs = Inr es"
    using assms by (intro map_records_defined normalize_defined) simp
  then show ?thesis by (auto simp: normalize_records_def bind_def)
qed


lemma set_insert_by: "set (insert_by cmp x ys) = insert x (set ys)"
  by (induction ys) auto

lemma set_sort_by: "set (sort_by cmp xs) = set xs"
  by (induction xs) (simp_all add: sort_by_def set_insert_by)

lemma sorted_insert_by:
  "sorted (map date ys) \<Longrightarrow> sorted (map date (insert_by compareFn x ys))"
  by (induction ys) (auto simp: compareFn_def set_insert_by)

lemma sorted_sort_by: "sorted (map date (sort_by compareFn xs))"
  by (induction xs) (simp_all add: sort_by_def sorted_insert_by)

lemma absolute_url_empty: "absolute_url u = [] \<longleftrightarrow> u = []"
  by (simp add: absolute_url_def js_def)

subsection \<open>Titles, descriptions and defaults\<close>

lemma resolve_first_nonempty:
  "resolve lang m dflt = first_nonempty [m lang, m ''fr'', m ''de'', m ''en''] dflt"
  by (auto simp: resolve_def or_else_def truthy_def nullish_or_def split: option.splits)

lemma first_nonempty_none:
  "\<forall>x \<in> set xs. \<not> truthy x \<Longrightarrow> first_nonempty xs dflt = dflt"
  by (induction xs dflt rule: first_nonempty.induct) (simp_all add: truthy_def)

lemma first_nonempty_some:
  "\<exists>x \<in> set xs. truthy x \<Longrightarrow>
   \<exists>s. Some s \<in> set xs \<and> s \<noteq> [] \<and> first_nonempty xs dflt = s"
  by (induction xs dflt rule: first_nonempty.induct) (auto simp: truthy_def)

lemma sanitize_empty: "sanitize [] = []"
  by code_simp

lemma placeholder_nonempty: "placeholder \<noteq> []"
  by (simp add: placeholder_def)



subsection \<open>The examples\<close>

lemma well_formed_example:
  "list_all valid_window ds \<Longrightarrow> well_formed (example_record i ds ps)"
  by (simp add: well_formed_def example_record_def)

lemma valid_window_window: "valid_window (window f t oh)"
  by (simp add: valid_window_def window_def)

lemma valid_window_year: "valid_window (year_2025 oh)"
  by (simp add: year_2025_def valid_window_window)

lemma valid_window_mid: "valid_window (mid_january oh)"
  by (simp add: mid_january_def valid_window_window)



lemma normalize_example_record:
  "\<exists>e. normalize 0 lang 0 (example_record i [window f t None] ps) = Inr e \<and> date e = f \<and>
     absoluteImageUrl e = absolute_url (image_url ps) \<and>
     rawRecord e = example_record i [window f t None] ps"
proof -
  have "select_window 0 [window f t None] = (Some f, Some t, None)"
    by (simp add: select_window_def window_def Let_def)
  then have "date_info 0 lang 0 [window f t None] = Inr (non_recurring_string 0 lang f t, f)"
    by (simp add: date_info_def)
  then show ?thesis
    by (simp add: normalize_Inr example_record_def)
qed

lemma image_url_with_url: "absolute_url (image_url (with_url (c # cs) # ps)) \<noteq> []"
  by (simp add: absolute_url_empty image_url_def with_url_def or_else_def truthy_def
      nullish_or_def js_def)

lemma image_url_none: "absolute_url (image_url []) = []"
  by (simp add: absolute_url_def image_url_def)

lemma image_url_examples:
  "image_url (no_previews # ps) = []" "image_url (no_media # ps) = []"
  "image_url (no_url # ps) = []" "image_url (with_url [] # ps) = []"
  by (simp_all add: image_url_Cons no_previews_def no_media_def no_url_def with_url_def js_def)

text \<open>
  The batch of the pictures: of its eight records, in the order of the dates 1000, 3000,
  2000, 500, 1500, 2500, 700 and 900, only the first three have a first picture with a
  non-empty preview URL. The list of events holds these three, by date.
\<close>

lemma preview_batch_out:
  "\<exists>out. normalize_records 0 ''fr'' (fixed_clock 0) preview_batch = Inr out \<and>
     map date out = [1000, 2000, 3000] \<and>
     map (\<lambda>e. record_id (rawRecord e)) out = [js ''a'', js ''c'', js ''b'']"
proof -
  let ?n = "normalize 0 ''fr'' 0"
  let ?ra = "example_record ''a'' [window 1000 2000 None] [with_url ''/a.png'']"
  let ?rb = "example_record ''b'' [window 3000 4000 None] [with_url ''http://x/b.png'']"
  let ?rc = "example_record ''c'' [window 2000 2500 None] [with_url ''/c.png'', no_previews]"
  let ?rd = "example_record ''d'' [window 500 600 None] []"
  let ?re = "example_record ''e'' [window 1500 1600 None] [no_previews, with_url ''/e.png'']"
  let ?rf = "example_record ''f'' [window 2500 2600 None] [no_media]"
  let ?rg = "example_record ''g'' [window 700 800 None] [no_url]"
  let ?rh = "example_record ''h'' [window 900 950 None] [with_url '''']"
  obtain a where a: "?n ?ra = Inr a" "date a = 1000" "absoluteImageUrl a \<noteq> []"
    "rawRecord a = ?ra"
    using normalize_example_record [of "''fr''" "''a''" 1000 2000 "[with_url ''/a.png'']"]
    by (auto simp: image_url_with_url)
  obtain b where b: "?n ?rb = Inr b" "date b = 3000" "absoluteImageUrl b \<noteq> []"
    "rawRecord b = ?rb"
    using normalize_example_record [of "''fr''" "''b''" 3000 4000 "[with_url ''http://x/b.png'']"]
    by (auto simp: image_url_with_url)
  obtain c where c: "?n ?rc = Inr c" "date c = 2000" "absoluteImageUrl c \<noteq> []"
    "rawRecord c = ?rc"
    using normalize_example_record [of "''fr''" "''c''" 2000 2500
        "[with_url ''/c.png'', no_previews]"]
    by (auto simp: image_url_with_url)
  obtain d where d: "?n ?rd = Inr d" "date d = 500" "absoluteImageUrl d = []"
    using normalize_example_record [of "''fr''" "''d''" 500 600 "[]"]
    by (auto simp: image_url_none)
  obtain e where e: "?n ?re = Inr e" "date e = 1500" "absoluteImageUrl e = []"
    using normalize_example_record [of "''fr''" "''e''" 1500 1600
        "[no_previews, with_url ''/e.png'']"]
    by (auto simp: image_url_examples absolute_url_def)
  obtain f where f: "?n ?rf = Inr f" "date f = 2500" "absoluteImageUrl f = []"
    using normalize_example_record [of "''fr''" "''f''" 2500 2600 "[no_media]"]
    by (auto simp: image_url_examples absolute_url_def)
  obtain g where g: "?n ?rg = Inr g" "date g = 700" "absoluteImageUrl g = []"
    using normalize_example_record [of "''fr''" "''g''" 700 800 "[no_url]"]
    by (auto simp: image_url_examples absolute_url_def)
  obtain h where h: "?n ?rh = Inr h" "date h = 900" "absoluteImageUrl h = []"
    using normalize_example_record [of "''fr''" "''h''" 900 950 "[with_url '''']"]
    by (auto simp: image_url_examples absolute_url_def)
  have "normalize_records 0 ''fr'' (fixed_clock 0) preview_batch =
      Inr (filter (\<lambda>event. absoluteImageUrl event \<noteq> [])
             (sort_by compareFn [a, b, c, d, e, f, g, h]))"
    by (simp add: normalize_records_def preview_batch_def fixed_clock_def bind_def
        a(1) b(1) c(1) d(1) e(1) f(1) g(1) h(1))
  moreover have "sort_by compareFn [a, b, c, d, e, f, g, h] = [d, g, h, a, e, c, f, b]"
    by (simp add: sort_by_def compareFn_def a(2) b(2) c(2) d(2) e(2) f(2) g(2) h(2))
  moreover have "record_id ?ra = js ''a''" "record_id ?rb = js ''b''" "record_id ?rc = js ''c''"
    by (simp_all add: example_record_def)
  ultimately show ?thesis
    by (simp add: a b c d e f g h)
qed

text \<open>
  With only Monday open at 10:00 and the clock at Wednesday 09:00, the next occurrence is
  the Monday of the following week.
\<close>

lemma monday_example:
  "date_info 0 ''en'' (wednesday + hours 9) [year_2025 (Some (opens ''monday'' ''10:00''))] =
     Inr (js ''Monday, 06/01/2025, 10:00'', wednesday + hours 9 + 5 * msPerDay)"
proof -
  let ?now = "wednesday + hours 9"
  let ?oh = "opens ''monday'' ''10:00''"
  have s: "select_window ?now [year_2025 (Some ?oh)] =
      (Some wednesday, Some (wednesday + 365 * msPerDay), Some ?oh)"
    by (simp add: select_window_def year_2025_def window_def Let_def)
  have e: "earliest (accepted 0 ?now (year_2025 (Some ?oh)) ?oh) =
      Some (?now + 5 * msPerDay, js ''10:00'')"
    by code_simp
  have n: "js ''10:00'' \<noteq> []" by (simp add: js_def)
  have v: "fmt_weekday ''en'' 0 (?now + 5 * msPerDay) @ js '', '' @
      fmt_date 0 (?now + 5 * msPerDay) @ js '', '' @ js ''10:00'' =
      js ''Monday, 06/01/2025, 10:00''"
    by code_simp
  show ?thesis
    by (simp add: date_info_recurring [OF refl s] e n v)
qed

section \<open>The claims of the specification\<close>

text \<open>
  C1. On \<open><style>.a{}</style><p>Hello</p><p>World</p>\<close> the sanitizer joins the two
  paragraphs with two newlines and then collapses that white space, like any other, to one
  space: the description is \<open>Hello World\<close>, not the two words separated by a blank line.
\<close>

theorem sanitize_example:
  "sanitize (js ''<style>.a{}</style><p>Hello</p><p>World</p>'') = js ''Hello World''"
  by code_simp

text \<open>
  C2. The candidate of today's weekday moves to the next week only when the current hour
  is greater than the hour of the opening time: the minutes are not compared. On Wednesday
  2025-01-01 at 10:30, with Wednesday open at 10:00, the candidate stays at the current
  instant and the label announces the opening of 10:00 of the same day, which has passed.
\<close>

theorem same_hour_not_advanced:
  "getDay 0 (wednesday + hours 10 + 1800000) = 3 \<and>
   fmt_time 0 (wednesday + hours 10 + 1800000) = js ''10:30'' \<and>
   candidate 0 (wednesday + hours 10 + 1800000) 3 (js ''10:00'') =
     wednesday + hours 10 + 1800000 \<and>
   date_info 0 ''en'' (wednesday + hours 10 + 1800000)
       [year_2025 (Some (opens ''wednesday'' ''10:00''))] =
     Inr (js ''Wednesday, 01/01/2025, 10:00'', wednesday + hours 10 + 1800000)"
proof -
  let ?now = "wednesday + hours 10 + 1800000"
  let ?oh = "opens ''wednesday'' ''10:00''"
  have 1: "getDay 0 ?now = 3" by code_simp
  have 2: "fmt_time 0 ?now = js ''10:30''" by code_simp
  have 3: "candidate 0 ?now 3 (js ''10:00'') = ?now" by code_simp
  have s: "select_window ?now [year_2025 (Some ?oh)] =
      (Some wednesday, Some (wednesday + 365 * msPerDay), Some ?oh)"
    by (simp add: select_window_def year_2025_def window_def Let_def)
  have e: "earliest (accepted 0 ?now (year_2025 (Some ?oh)) ?oh) = Some (?now, js ''10:00'')"
    by code_simp
  have n: "js ''10:00'' \<noteq> []" by (simp add: js_def)
  have v: "fmt_weekday ''en'' 0 ?now @ js '', '' @ fmt_date 0 ?now @ js '', '' @ js ''10:00'' =
      js ''Wednesday, 01/01/2025, 10:00''"
    by code_simp
  have 4: "date_info 0 ''en'' ?now [year_2025 (Some ?oh)] =
      Inr (js ''Wednesday, 01/01/2025, 10:00'', ?now)"
    by (simp add: date_info_recurring [OF refl s] e n v)
  from 1 2 3 4 show ?thesis by (intro conjI)
qed

text \<open>
  C3. The window of a record is the first entry of \<open>dates\<close> whose \<open>from\<close> is not before
  the current time; when there is none, it is the only entry of a list of one and the last
  entry of a longer list; for an empty list it is \<open>{from: now, to: now, openingHours: null}\<close>.
\<close>

theorem select_window_cases:
  "(find (\<lambda>d. date_ge (date_from d) now) ds = Some d \<longrightarrow>
      select_window now ds = (date_from d, date_to d, date_openingHours d)) \<and>
   (find (\<lambda>d. date_ge (date_from d) now) ds = None \<and> ds = [d1] \<longrightarrow>
      select_window now ds = (date_from d1, date_to d1, date_openingHours d1)) \<and>
   (find (\<lambda>d. date_ge (date_from d) now) ds = None \<and> length ds > 1 \<longrightarrow>
      select_window now ds =
        (date_from (last ds), date_to (last ds), date_openingHours (last ds))) \<and>
   (ds = [] \<longrightarrow> select_window now ds = (Some now, Some now, None))"
proof (cases "length ds = Suc 0")
  case True
  then obtain x where ds: "ds = [x]" by (cases ds) auto
  show ?thesis
    by (auto simp: ds select_window_def Let_def split: if_splits)
next
  case False
  then show ?thesis
    by (auto simp: select_window_def dates_loop_many split: option.splits)
qed

theorem select_window_witness:
  "find (\<lambda>d. date_ge (date_from d) 5) [window 1 2 None, window 7 8 None, window 9 10 None] =
     Some (window 7 8 None) \<and>
   select_window 5 [window 1 2 None, window 7 8 None, window 9 10 None] = (Some 7, Some 8, None) \<and>
   find (\<lambda>d. date_ge (date_from d) 5) [window 1 2 None] = None \<and>
   select_window 5 [window 1 2 None] = (Some 1, Some 2, None) \<and>
   find (\<lambda>d. date_ge (date_from d) 5) [window 1 2 None, window 3 4 None] = None \<and>
   length [window 1 2 None, window 3 4 None] > 1 \<and>
   select_window 5 [window 1 2 None, window 3 4 None] = (Some 3, Some 4, None) \<and>
   select_window 5 [] = (Some 5, Some 5, None)"
proof -
  have a: "find (\<lambda>d. date_ge (date_from d) 5)
      [window 1 2 None, window 7 8 None, window 9 10 None] = Some (window 7 8 None)"
    by (simp add: window_def date_ge_def)
  have b: "find (\<lambda>d. date_ge (date_from d) 5) [window 1 2 None] = None"
    by (simp add: window_def date_ge_def)
  have c: "find (\<lambda>d. date_ge (date_from d) 5) [window 1 2 None, window 3 4 None] = None"
    by (simp add: window_def date_ge_def)
  show ?thesis
    using a b c
      select_window_cases [of 5 "[window 1 2 None, window 7 8 None, window 9 10 None]"
        "window 7 8 None" "window 1 2 None"]
      select_window_cases [of 5 "[window 1 2 None]" "window 1 2 None" "window 1 2 None"]
      select_window_cases [of 5 "[window 1 2 None, window 3 4 None]" "window 1 2 None"
        "window 1 2 None"]
      select_window_cases [of 5 "[]" "window 1 2 None" "window 1 2 None"]
    by (simp add: window_def)
qed

text \<open>
  C4. A candidate is accepted exactly when it lies in the closed interval of the first
  date window of the record, whichever window was selected. The search returns the earliest
  accepted candidate, the first in the order of \<open>daysOfWeek\<close> among equal dates, with its
  opening time. When there is one (and its opening time is not empty), the label is its
  weekday, date and opening time and the date is the occurrence; when no candidate is
  accepted, the label is \<open>From <start> to <end>\<close> of the selected window and the date is
  its \<open>dateFrom\<close>. The event carries that label and that date.
\<close>

theorem recurring_resolution:
  "(date_from first = Some f \<and> date_to first = Some t \<longrightarrow>
      (in_range first p \<longleftrightarrow> f \<le> p \<and> p \<le> t)) \<and>
   next_occurrence tz now first oh =
     (case earliest (accepted tz now first oh) of
        None \<Rightarrow> (None, None)
      | Some x \<Rightarrow> (Some (fst x), Some (snd x))) \<and>
   (ds = first # rest \<and> select_window now ds = (dateFrom, dateTo, Some oh) \<and>
    earliest (accepted tz now first oh) = Some (nextDate, nextTime) \<and> nextTime \<noteq> [] \<longrightarrow>
      date_info tz lang now ds =
        Inr (fmt_weekday lang tz nextDate @ js '', '' @ fmt_date tz nextDate @ js '', '' @
             nextTime, nextDate)) \<and>
   (ds = first # rest \<and> select_window now ds = (Some sf, Some st, Some oh) \<and>
    accepted tz now first oh = [] \<longrightarrow>
      date_info tz lang now ds =
        Inr (js ''From '' @ fmt_date tz sf @ js '' to '' @ fmt_date tz st, sf)) \<and>
   (normalize tz lang now r = Inr e \<and> record_dates r = Some ds \<and>
    date_info tz lang now ds = Inr (label, d) \<longrightarrow>
      dateString e = label \<and> date e = d)"
proof (intro conjI impI)
  assume "date_from first = Some f \<and> date_to first = Some t"
  then show "in_range first p \<longleftrightarrow> f \<le> p \<and> p \<le> t"
    by (simp add: in_range_closed)
next
  show "next_occurrence tz now first oh =
     (case earliest (accepted tz now first oh) of
        None \<Rightarrow> (None, None)
      | Some x \<Rightarrow> (Some (fst x), Some (snd x)))"
    by (rule next_occurrence_earliest)
next
  assume a: "ds = first # rest \<and> select_window now ds = (dateFrom, dateTo, Some oh) \<and>
    earliest (accepted tz now first oh) = Some (nextDate, nextTime) \<and> nextTime \<noteq> []"
  then have ds: "ds = first # rest" and s: "select_window now ds = (dateFrom, dateTo, Some oh)"
    and e: "earliest (accepted tz now first oh) = Some (nextDate, nextTime)"
    and n: "nextTime \<noteq> []"
    by blast+
  show "date_info tz lang now ds =
        Inr (fmt_weekday lang tz nextDate @ js '', '' @ fmt_date tz nextDate @ js '', '' @
             nextTime, nextDate)"
    by (simp add: date_info_recurring [OF ds s] e n)
next
  assume a: "ds = first # rest \<and> select_window now ds = (Some sf, Some st, Some oh) \<and>
    accepted tz now first oh = []"
  then have ds: "ds = first # rest" and s: "select_window now ds = (Some sf, Some st, Some oh)"
    and "accepted tz now first oh = []"
    by blast+
  then have e: "earliest (accepted tz now first oh) = None"
    by (simp add: earliest_def)
  show "date_info tz lang now ds =
        Inr (js ''From '' @ fmt_date tz sf @ js '' to '' @ fmt_date tz st, sf)"
    by (simp add: date_info_recurring [OF ds s] e from_to_string_def)
next
  assume a: "normalize tz lang now r = Inr e \<and> record_dates r = Some ds \<and>
    date_info tz lang now ds = Inr (label, d)"
  then show "dateString e = label" by (auto simp: normalize_Inr)
  from a show "date e = d" by (auto simp: normalize_Inr)
qed

theorem recurring_resolution_witness:
  "date_from (december_2024 None) = Some (wednesday - 31 * msPerDay) \<and>
   date_to (december_2024 None) = Some (wednesday - 1) \<and>
   \<not> in_range (december_2024 None) (wednesday + hours 9 + 5 * msPerDay) \<and>
   next_occurrence 0 (wednesday + hours 9) (year_2025 None)
       ((opens ''monday'' ''10:00'')(''friday'' \<mapsto> \<lparr> oh_from = js ''18:00'' \<rparr>)) =
     (Some (wednesday + hours 9 + 2 * msPerDay), Some (js ''18:00'')) \<and>
   select_window (wednesday + hours 9)
       [year_2025 None, mid_january (Some (opens ''monday'' ''10:00''))] =
     (Some (wednesday + 10 * msPerDay), Some (wednesday + 20 * msPerDay),
      Some (opens ''monday'' ''10:00'')) \<and>
   earliest (accepted 0 (wednesday + hours 9) (year_2025 None) (opens ''monday'' ''10:00'')) =
     Some (wednesday + hours 9 + 5 * msPerDay, js ''10:00'') \<and>
   date_info 0 ''en'' (wednesday + hours 9)
       [year_2025 None, mid_january (Some (opens ''monday'' ''10:00''))] =
     Inr (js ''Monday, 06/01/2025, 10:00'', wednesday + hours 9 + 5 * msPerDay) \<and>
   (\<exists>e. normalize 0 ''en'' (wednesday + hours 9)
          (example_record ''a''
             [year_2025 None, mid_january (Some (opens ''monday'' ''10:00''))] []) = Inr e \<and>
        dateString e = js ''Monday, 06/01/2025, 10:00'' \<and>
        date e = wednesday + hours 9 + 5 * msPerDay) \<and>
   select_window (wednesday + hours 9)
       [december_2024 None, year_2025 (Some (opens ''monday'' ''10:00''))] =
     (Some wednesday, Some (wednesday + 365 * msPerDay), Some (opens ''monday'' ''10:00'')) \<and>
   accepted 0 (wednesday + hours 9) (december_2024 None) (opens ''monday'' ''10:00'') = [] \<and>
   date_info 0 ''fr'' (wednesday + hours 9)
       [december_2024 None, year_2025 (Some (opens ''monday'' ''10:00''))] =
     Inr (js ''From 01/01/2025 to 01/01/2026'', wednesday)"
proof -
  let ?now = "wednesday + hours 9"
  let ?oh = "opens ''monday'' ''10:00''"
  let ?oh2 = "(opens ''monday'' ''10:00'')(''friday'' \<mapsto> \<lparr> oh_from = js ''18:00'' \<rparr>)"
  let ?ds = "[december_2024 None, year_2025 (Some ?oh)]"
  let ?ds2 = "[year_2025 None, mid_january (Some ?oh)]"
  let ?r = "example_record ''a'' ?ds2 []"
  have f: "date_from (december_2024 None) = Some (wednesday - 31 * msPerDay) \<and>
      date_to (december_2024 None) = Some (wednesday - 1)"
    by (simp add: december_2024_def window_def)
  have s: "select_window ?now ?ds = (Some wednesday, Some (wednesday + 365 * msPerDay), Some ?oh)"
    by (simp add: select_window_def december_2024_def year_2025_def window_def date_ge_def
        wednesday_def hours_def msPerDay_def Let_def)
  have s2: "select_window ?now ?ds2 =
      (Some (wednesday + 10 * msPerDay), Some (wednesday + 20 * msPerDay), Some ?oh)"
    by (simp add: select_window_def mid_january_def year_2025_def window_def date_ge_def
        wednesday_def hours_def msPerDay_def Let_def)
  have a: "accepted 0 ?now (december_2024 None) ?oh = []"
    by code_simp
  have e: "earliest (accepted 0 ?now (year_2025 None) ?oh2) =
      Some (wednesday + hours 9 + 2 * msPerDay, js ''18:00'')"
    by code_simp
  have e2: "earliest (accepted 0 ?now (year_2025 None) ?oh) =
      Some (wednesday + hours 9 + 5 * msPerDay, js ''10:00'')"
    by code_simp
  have n: "js ''10:00'' \<noteq> []" by (simp add: js_def)
  have v: "js ''From '' @ fmt_date 0 wednesday @ js '' to '' @
      fmt_date 0 (wednesday + 365 * msPerDay) = js ''From 01/01/2025 to 01/01/2026''"
    by code_simp
  have v2: "fmt_weekday ''en'' 0 (wednesday + hours 9 + 5 * msPerDay) @ js '', '' @
      fmt_date 0 (wednesday + hours 9 + 5 * msPerDay) @ js '', '' @ js ''10:00'' =
      js ''Monday, 06/01/2025, 10:00''"
    by code_simp
  have r: "\<not> (wednesday - 31 * msPerDay \<le> wednesday + hours 9 + 5 * msPerDay \<and>
      wednesday + hours 9 + 5 * msPerDay \<le> wednesday - 1)"
    by (simp add: hours_def msPerDay_def)
  have "well_formed ?r"
    by (simp add: well_formed_example valid_window_year valid_window_mid)
  from normalize_defined [OF this] obtain ev where ev: "normalize 0 ''en'' ?now ?r = Inr ev"
    by blast
  have rd: "record_dates ?r = Some ?ds2" by (simp add: example_record_def)
  have 1: "\<not> in_range (december_2024 None) (wednesday + hours 9 + 5 * msPerDay) \<and>
      date_info 0 ''fr'' ?now ?ds = Inr (js ''From 01/01/2025 to 01/01/2026'', wednesday)"
    using f s a v r
      recurring_resolution [of "december_2024 None" "wednesday - 31 * msPerDay" "wednesday - 1"
        "wednesday + hours 9 + 5 * msPerDay" 0 ?now ?oh ?ds "[year_2025 (Some ?oh)]"
        "Some wednesday" "Some (wednesday + 365 * msPerDay)" 0 "[]" "''fr''"
        wednesday "wednesday + 365 * msPerDay"]
    by simp
  have 2: "next_occurrence 0 ?now (year_2025 None) ?oh2 =
      (Some (wednesday + hours 9 + 2 * msPerDay), Some (js ''18:00''))"
    using e recurring_resolution [of "year_2025 None" 0 0 0 0 ?now ?oh2]
    by simp
  have 3: "date_info 0 ''en'' ?now ?ds2 =
      Inr (js ''Monday, 06/01/2025, 10:00'', wednesday + hours 9 + 5 * msPerDay)"
    using s2 e2 n v2
      recurring_resolution [of "year_2025 None" 0 0 0 0 ?now ?oh ?ds2
        "[mid_january (Some ?oh)]" "Some (wednesday + 10 * msPerDay)"
        "Some (wednesday + 20 * msPerDay)" "wednesday + hours 9 + 5 * msPerDay" "js ''10:00''"
        "''en''"]
    by simp
  have 4: "dateString ev = js ''Monday, 06/01/2025, 10:00'' \<and>
      date ev = wednesday + hours 9 + 5 * msPerDay"
    using ev rd 3
      recurring_resolution [where tz = 0 and now = ?now and lang = "''en''" and r = ?r
        and e = ev and ds = ?ds2 and label = "js ''Monday, 06/01/2025, 10:00''"
        and d = "wednesday + hours 9 + 5 * msPerDay"]
    by simp
  from f 1 2 s2 e2 3 ev 4 s a show ?thesis by (intro conjI exI [of _ ev]) simp_all
qed

text \<open>
  C5. For a selected window without opening hours the label is \<open>From <date> to <date>\<close>
  when \<open>dateTo - dateFrom\<close> is more than 24 hours; otherwise it is the weekday, the date
  and the start time, followed by \<open>-\<close> and the end time when the two dates are printed
  differently. The date of the event is \<open>dateFrom\<close>. A span of exactly 24 hours is not more
  than 24 hours.
\<close>

theorem non_recurring_label:
  "select_window now ds = (Some f, Some t, None) \<Longrightarrow>
   date_info tz lang now ds =
     Inr (if t - f > 24 * 60 * 60 * 1000 then
            js ''From '' @ fmt_date tz f @ js '' to '' @ fmt_date tz t
          else if fmt_date tz f = fmt_date tz t then
            fmt_weekday lang tz f @ js '', '' @ fmt_date tz f @ js '', '' @ fmt_time tz f
          else
            fmt_weekday lang tz f @ js '', '' @ fmt_date tz f @ js '', '' @ fmt_time tz f @
            js ''-'' @ fmt_time tz t,
          f)"
  by (simp add: date_info_def non_recurring_string_def Let_def)

theorem non_recurring_label_witness:
  "select_window 0 [window (wednesday + hours 10) (wednesday + hours 34) None] =
     (Some (wednesday + hours 10), Some (wednesday + hours 34), None) \<and>
   date_info 0 ''en'' 0 [window (wednesday + hours 10) (wednesday + hours 34) None] =
     Inr (js ''Wednesday, 01/01/2025, 10:00-10:00'', wednesday + hours 10) \<and>
   date_info 0 ''en'' 0 [window (wednesday + hours 10) (wednesday + hours 34 - 1000) None] =
     Inr (js ''Wednesday, 01/01/2025, 10:00-09:59'', wednesday + hours 10) \<and>
   date_info 0 ''en'' 0 [window (wednesday + hours 10) (wednesday + hours 34 + 1) None] =
     Inr (js ''From 01/01/2025 to 02/01/2025'', wednesday + hours 10) \<and>
   date_info 0 ''de'' 0 [window (wednesday + hours 10) (wednesday + hours 12) None] =
     Inr (js ''Mittwoch, 01/01/2025, 10:00'', wednesday + hours 10)"
proof -
  have s: "select_window 0 [window f t None] = (Some f, Some t, None)" for f t
    by (simp add: select_window_def window_def Let_def)
  have v1: "(if (wednesday + hours 34) - (wednesday + hours 10) > 24 * 60 * 60 * 1000 then
            js ''From '' @ fmt_date 0 (wednesday + hours 10) @ js '' to '' @ fmt_date 0 (wednesday + hours 34)
          else if fmt_date 0 (wednesday + hours 10) = fmt_date 0 (wednesday + hours 34) then
            fmt_weekday ''en'' 0 (wednesday + hours 10) @ js '', '' @ fmt_date 0 (wednesday + hours 10) @ js '', '' @ fmt_time 0 (wednesday + hours 10)
          else
            fmt_weekday ''en'' 0 (wednesday + hours 10) @ js '', '' @ fmt_date 0 (wednesday + hours 10) @ js '', '' @ fmt_time 0 (wednesday + hours 10) @
            js ''-'' @ fmt_time 0 (wednesday + hours 34)) = js ''Wednesday, 01/01/2025, 10:00-10:00''"
    by code_simp
  have v2: "(if (wednesday + hours 34 - 1000) - (wednesday + hours 10) > 24 * 60 * 60 * 1000 then
            js ''From '' @ fmt_date 0 (wednesday + hours 10) @ js '' to '' @ fmt_date 0 (wednesday + hours 34 - 1000)
          else if fmt_date 0 (wednesday + hours 10) = fmt_date 0 (wednesday + hours 34 - 1000) then
            fmt_weekday ''en'' 0 (wednesday + hours 10) @ js '', '' @ fmt_date 0 (wednesday + hours 10) @ js '', '' @ fmt_time 0 (wednesday + hours 10)
          else
            fmt_weekday ''en'' 0 (wednesday + hours 10) @ js '', '' @ fmt_date 0 (wednesday + hours 10) @ js '', '' @ fmt_time 0 (wednesday + hours 10) @
            js ''-'' @ fmt_time 0 (wednesday + hours 34 - 1000)) = js ''Wednesday, 01/01/2025, 10:00-09:59''"
    by code_simp
  have v3: "(if (wednesday + hours 34 + 1) - (wednesday + hours 10) > 24 * 60 * 60 * 1000 then
            js ''From '' @ fmt_date 0 (wednesday + hours 10) @ js '' to '' @ fmt_date 0 (wednesday + hours 34 + 1)
          else if fmt_date 0 (wednesday + hours 10) = fmt_date 0 (wednesday + hours 34 + 1) then
            fmt_weekday ''en'' 0 (wednesday + hours 10) @ js '', '' @ fmt_date 0 (wednesday + hours 10) @ js '', '' @ fmt_time 0 (wednesday + hours 10)
          else
            fmt_weekday ''en'' 0 (wednesday + hours 10) @ js '', '' @ fmt_date 0 (wednesday + hours 10) @ js '', '' @ fmt_time 0 (wednesday + hours 10) @
            js ''-'' @ fmt_time 0 (wednesday + hours 34 + 1)) = js ''From 01/01/2025 to 02/01/2025''"
    by code_simp
  have v4: "(if (wednesday + hours 12) - (wednesday + hours 10) > 24 * 60 * 60 * 1000 then
            js ''From '' @ fmt_date 0 (wednesday + hours 10) @ js '' to '' @ fmt_date 0 (wednesday + hours 12)
          else if fmt_date 0 (wednesday + hours 10) = fmt_date 0 (wednesday + hours 12) then
            fmt_weekday ''de'' 0 (wednesday + hours 10) @ js '', '' @ fmt_date 0 (wednesday + hours 10) @ js '', '' @ fmt_time 0 (wednesday + hours 10)
          else
            fmt_weekday ''de'' 0 (wednesday + hours 10) @ js '', '' @ fmt_date 0 (wednesday + hours 10) @ js '', '' @ fmt_time 0 (wednesday + hours 10) @
            js ''-'' @ fmt_time 0 (wednesday + hours 12)) = js ''Mittwoch, 01/01/2025, 10:00''"
    by code_simp
  show ?thesis
    using
      non_recurring_label [where tz = 0 and lang = "''en''",
        OF s [of "wednesday + hours 10" "wednesday + hours 34"]]
      non_recurring_label [where tz = 0 and lang = "''en''",
        OF s [of "wednesday + hours 10" "wednesday + hours 34 - 1000"]]
      non_recurring_label [where tz = 0 and lang = "''en''",
        OF s [of "wednesday + hours 10" "wednesday + hours 34 + 1"]]
      non_recurring_label [where tz = 0 and lang = "''de''",
        OF s [of "wednesday + hours 10" "wednesday + hours 12"]]
    by (simp only: v1 v2 v3 v4 s simp_thms)
qed

text \<open>
  C6. The list of events is sorted by \<open>date\<close>, in non-decreasing order. Every event in it
  has a non-empty \<open>absoluteImageUrl\<close> and comes from a record of the batch whose first
  picture has previews, with a media, with a non-empty URL; and every such record of the
  batch has its event in the list. So a record with no picture, or whose first picture lacks
  the preview, is absent.
\<close>

theorem sorted_with_previews:
  "normalize_records tz lang clock records = Inr out \<Longrightarrow>
   sorted (map date out) \<and>
   (\<forall>e \<in> set out.
      absoluteImageUrl e \<noteq> [] \<and> rawRecord e \<in> set records \<and>
      (\<exists>p ps pv m u.
         record_pictures (rawRecord e) = Some (p # ps) \<and> picture_previews p = Some pv \<and>
         previews_media pv = Some m \<and> media_url m = Some u \<and> u \<noteq> [])) \<and>
   (\<forall>r \<in> set records.
      (\<exists>p ps pv m u.
         record_pictures r = Some (p # ps) \<and> picture_previews p = Some pv \<and>
         previews_media pv = Some m \<and> media_url m = Some u \<and> u \<noteq> []) \<longrightarrow>
      (\<exists>e \<in> set out. rawRecord e = r))"
proof -
  assume a: "normalize_records tz lang clock records = Inr out"
  then obtain es where es: "map_records (\<lambda>i. normalize tz lang (clock i)) 0 records = Inr es"
    and out: "out = filter (\<lambda>event. absoluteImageUrl event \<noteq> []) (sort_by compareFn es)"
    by (auto simp: normalize_records_def bind_def split: sum.splits)
  note mr = map_records_Inr [OF es]
  have srt: "sorted (map date out)"
    unfolding out by (intro sorted_filter sorted_sort_by)
  have mem: "absoluteImageUrl e \<noteq> [] \<and> rawRecord e \<in> set records \<and>
      (\<exists>p ps pv m u.
         record_pictures (rawRecord e) = Some (p # ps) \<and> picture_previews p = Some pv \<and>
         previews_media pv = Some m \<and> media_url m = Some u \<and> u \<noteq> [])" if "e \<in> set out" for e
  proof -
    from that have e: "e \<in> set es" and img: "absoluteImageUrl e \<noteq> []"
      by (auto simp: out set_sort_by)
    from e obtain k where k: "k < length es" "es ! k = e" by (auto simp: in_set_conv_nth)
    from mr k
    have n: "normalize tz lang (clock k) (records ! k) = Inr e" and kl: "k < length records"
      by auto
    from n obtain ps where ps: "record_pictures (records ! k) = Some ps"
      "rawRecord e = records ! k" "absoluteImageUrl e = absolute_url (image_url ps)"
      by (auto simp: normalize_Inr)
    with img have "image_url ps \<noteq> []" by (simp add: absolute_url_empty)
    then obtain p ps' pv m u where "ps = p # ps'" "picture_previews p = Some pv"
      "previews_media pv = Some m" "media_url m = Some u" "u \<noteq> []"
      unfolding image_url_nonempty by blast
    with ps kl img show ?thesis by auto
  qed
  have conv: "\<exists>e \<in> set out. rawRecord e = r"
    if r: "r \<in> set records"
      and pv: "\<exists>p ps pv m u.
         record_pictures r = Some (p # ps) \<and> picture_previews p = Some pv \<and>
         previews_media pv = Some m \<and> media_url m = Some u \<and> u \<noteq> []" for r
  proof -
    from r obtain k where k: "k < length records" "records ! k = r"
      by (auto simp: in_set_conv_nth)
    with mr have n: "normalize tz lang (clock k) r = Inr (es ! k)" and kl: "k < length es"
      by auto
    from n obtain ps where ps: "record_pictures r = Some ps"
      "rawRecord (es ! k) = r" "absoluteImageUrl (es ! k) = absolute_url (image_url ps)"
      by (auto simp: normalize_Inr)
    from pv ps(1) have "image_url ps \<noteq> []"
      unfolding image_url_nonempty by auto
    then have "absoluteImageUrl (es ! k) \<noteq> []" by (simp add: ps absolute_url_empty)
    with kl have "es ! k \<in> set out" by (simp add: out set_sort_by)
    with ps(2) show ?thesis by blast
  qed
  from srt mem conv show ?thesis by blast
qed

theorem sorted_with_previews_witness:
  "\<exists>out. normalize_records 0 ''fr'' (fixed_clock 0) preview_batch = Inr out \<and>
     map date out = [1000, 2000, 3000] \<and>
     map (\<lambda>e. record_id (rawRecord e)) out = [js ''a'', js ''c'', js ''b''] \<and>
     sorted (map date out) \<and>
     (\<forall>e \<in> set out.
        absoluteImageUrl e \<noteq> [] \<and> rawRecord e \<in> set preview_batch \<and>
        (\<exists>p ps pv m u.
           record_pictures (rawRecord e) = Some (p # ps) \<and> picture_previews p = Some pv \<and>
           previews_media pv = Some m \<and> media_url m = Some u \<and> u \<noteq> []))"
proof -
  from preview_batch_out
  obtain out where out: "normalize_records 0 ''fr'' (fixed_clock 0) preview_batch = Inr out"
    "map date out = [1000, 2000, 3000]"
    "map (\<lambda>e. record_id (rawRecord e)) out = [js ''a'', js ''c'', js ''b'']"
    by auto
  from sorted_with_previews [OF out(1)] out show ?thesis by auto
qed

text \<open>
  C7. The title is the first present and non-empty value among the requested locale,
  French, German and English, else the literal of the code, written here by its code units
  (U+00C9, v, U+00E9, n, e, m, e, n, t); \<open>initialDescription\<close> is chosen in the same way
  with the empty string as the default, and \<open>description\<close> is its sanitized form. For a
  requested locale among the three, the default is taken exactly when the three values are
  all absent or empty: otherwise the title is one of the non-empty values of the record, and
  \<open>initialDescription\<close> is empty if and only if all three are absent or empty.
\<close>

theorem title_description_fallback:
  "normalize tz lang now r = Inr e \<and> record_title r = Some t \<and> record_description r = Some d \<longrightarrow>
     title e =
       first_nonempty [t lang, t ''fr'', t ''de'', t ''en'']
         [0xC9, 0x76, 0xE9, 0x6E, 0x65, 0x6D, 0x65, 0x6E, 0x74] \<and>
     initialDescription e = first_nonempty [d lang, d ''fr'', d ''de'', d ''en''] [] \<and>
     description e = sanitize (initialDescription e) \<and>
     (lang \<in> {''fr'', ''de'', ''en''} \<longrightarrow>
        (\<not> truthy (t ''fr'') \<and> \<not> truthy (t ''de'') \<and> \<not> truthy (t ''en'') \<longrightarrow>
           title e = [0xC9, 0x76, 0xE9, 0x6E, 0x65, 0x6D, 0x65, 0x6E, 0x74]) \<and>
        (truthy (t ''fr'') \<or> truthy (t ''de'') \<or> truthy (t ''en'') \<longrightarrow>
           (\<exists>l \<in> {''fr'', ''de'', ''en''}. t l = Some (title e) \<and> title e \<noteq> [])) \<and>
        (initialDescription e = [] \<longleftrightarrow>
           \<not> truthy (d ''fr'') \<and> \<not> truthy (d ''de'') \<and> \<not> truthy (d ''en'')))"
proof (intro impI)
  assume a: "normalize tz lang now r = Inr e \<and> record_title r = Some t \<and>
    record_description r = Some d"
  let ?ts = "[t lang, t ''fr'', t ''de'', t ''en'']"
  let ?ds = "[d lang, d ''fr'', d ''de'', d ''en'']"
  let ?ph = "[0xC9, 0x76, 0xE9, 0x6E, 0x65, 0x6D, 0x65, 0x6E, 0x74] :: jsstring"
  from a have te: "title e = first_nonempty ?ts ?ph"
    and de: "initialDescription e = first_nonempty ?ds []"
    and se: "description e = sanitize (initialDescription e)"
    by (auto simp: normalize_Inr resolve_first_nonempty placeholder_units)
  have 1: "title e = ?ph"
    if l: "lang \<in> {''fr'', ''de'', ''en''}"
      and n: "\<not> truthy (t ''fr'') \<and> \<not> truthy (t ''de'') \<and> \<not> truthy (t ''en'')"
  proof -
    from l n have "\<forall>x \<in> set ?ts. \<not> truthy x" by auto
    then show ?thesis unfolding te by (rule first_nonempty_none)
  qed
  have 2: "\<exists>l \<in> {''fr'', ''de'', ''en''}. t l = Some (title e) \<and> title e \<noteq> []"
    if l: "lang \<in> {''fr'', ''de'', ''en''}"
      and n: "truthy (t ''fr'') \<or> truthy (t ''de'') \<or> truthy (t ''en'')"
  proof -
    from n have "\<exists>x \<in> set ?ts. truthy x" by auto
    from first_nonempty_some [OF this, of ?ph]
    obtain s where s: "Some s \<in> set ?ts" "s \<noteq> []" "title e = s"
      unfolding te by metis
    from s(1) l have "\<exists>l \<in> {''fr'', ''de'', ''en''}. t l = Some s" by auto
    with s show ?thesis by simp
  qed
  have 3: "initialDescription e = [] \<longleftrightarrow>
      \<not> truthy (d ''fr'') \<and> \<not> truthy (d ''de'') \<and> \<not> truthy (d ''en'')"
    if l: "lang \<in> {''fr'', ''de'', ''en''}"
  proof
    assume n: "\<not> truthy (d ''fr'') \<and> \<not> truthy (d ''de'') \<and> \<not> truthy (d ''en'')"
    with l have "\<forall>x \<in> set ?ds. \<not> truthy x" by auto
    then show "initialDescription e = []" unfolding de by (rule first_nonempty_none)
  next
    assume e: "initialDescription e = []"
    show "\<not> truthy (d ''fr'') \<and> \<not> truthy (d ''de'') \<and> \<not> truthy (d ''en'')"
    proof (rule ccontr)
      assume "\<not> (\<not> truthy (d ''fr'') \<and> \<not> truthy (d ''de'') \<and> \<not> truthy (d ''en''))"
      then have "\<exists>x \<in> set ?ds. truthy x" by auto
      from first_nonempty_some [OF this, of "[]"]
      obtain s where "s \<noteq> []" and "first_nonempty ?ds [] = s" by metis
      with e de show False by simp
    qed
  qed
  show "title e = first_nonempty [t lang, t ''fr'', t ''de'', t ''en'']
         [0xC9, 0x76, 0xE9, 0x6E, 0x65, 0x6D, 0x65, 0x6E, 0x74] \<and>
     initialDescription e = first_nonempty [d lang, d ''fr'', d ''de'', d ''en''] [] \<and>
     description e = sanitize (initialDescription e) \<and>
     (lang \<in> {''fr'', ''de'', ''en''} \<longrightarrow>
        (\<not> truthy (t ''fr'') \<and> \<not> truthy (t ''de'') \<and> \<not> truthy (t ''en'') \<longrightarrow>
           title e = [0xC9, 0x76, 0xE9, 0x6E, 0x65, 0x6D, 0x65, 0x6E, 0x74]) \<and>
        (truthy (t ''fr'') \<or> truthy (t ''de'') \<or> truthy (t ''en'') \<longrightarrow>
           (\<exists>l \<in> {''fr'', ''de'', ''en''}. t l = Some (title e) \<and> title e \<noteq> [])) \<and>
        (initialDescription e = [] \<longleftrightarrow>
           \<not> truthy (d ''fr'') \<and> \<not> truthy (d ''de'') \<and> \<not> truthy (d ''en'')))"
  proof (intro conjI impI)
    show "title e = first_nonempty ?ts ?ph" by (rule te)
    show "initialDescription e = first_nonempty ?ds []" by (rule de)
    show "description e = sanitize (initialDescription e)" by (rule se)
  next
    assume "lang \<in> {''fr'', ''de'', ''en''}"
      and "\<not> truthy (t ''fr'') \<and> \<not> truthy (t ''de'') \<and> \<not> truthy (t ''en'')"
    then show "title e = ?ph" by (rule 1)
  next
    assume "lang \<in> {''fr'', ''de'', ''en''}"
      and "truthy (t ''fr'') \<or> truthy (t ''de'') \<or> truthy (t ''en'')"
    then show "\<exists>l \<in> {''fr'', ''de'', ''en''}. t l = Some (title e) \<and> title e \<noteq> []"
      by (rule 2)
  next
    assume "lang \<in> {''fr'', ''de'', ''en''}"
    then show "initialDescription e = [] \<longleftrightarrow>
      \<not> truthy (d ''fr'') \<and> \<not> truthy (d ''de'') \<and> \<not> truthy (d ''en'')"
      by (rule 3)
  qed
qed

theorem title_description_fallback_witness:
  "(\<exists>e. normalize 0 ''en'' 0 (example_record ''a'' [window 1000 2000 None] []) = Inr e \<and>
      ''en'' \<in> {''fr'', ''de'', ''en''} \<and> truthy (Some (js ''Konzert'')) \<and>
      title e = js ''Konzert'' \<and> initialDescription e = [] \<and> description e = []) \<and>
   (\<exists>e. normalize 0 ''en'' 0 bare_record = Inr e \<and>
      title e = [0xC9, 0x76, 0xE9, 0x6E, 0x65, 0x6D, 0x65, 0x6E, 0x74]) \<and>
   (\<exists>e. normalize 0 ''de'' 0 partial_record = Inr e \<and>
      title e = [0xC9, 0x76, 0xE9, 0x6E, 0x65, 0x6D, 0x65, 0x6E, 0x74])"
proof -
  let ?r = "example_record ''a'' [window 1000 2000 None] []"
  let ?t = "[''de'' \<mapsto> js ''Konzert'']"
  have "well_formed ?r" by (simp add: well_formed_example valid_window_window)
  from normalize_defined [OF this] obtain e where e: "normalize 0 ''en'' 0 ?r = Inr e"
    by blast
  have t: "record_title ?r = Some ?t" and d: "record_description ?r = Some Map.empty"
    by (simp_all add: example_record_def)
  have k: "js ''Konzert'' \<noteq> []" by (simp add: js_def)
  have 1: "title e = js ''Konzert'' \<and> initialDescription e = [] \<and> description e = []"
    using title_description_fallback [of 0 "''en''" 0 ?r e ?t Map.empty] e t d k
    by (simp add: sanitize_empty)
  have "well_formed bare_record" by (simp add: well_formed_def bare_record_def)
  from normalize_defined [OF this] obtain e' where e': "normalize 0 ''en'' 0 bare_record = Inr e'"
    by blast
  have t': "record_title bare_record = Some Map.empty"
    and d': "record_description bare_record = Some Map.empty"
    by (simp_all add: bare_record_def)
  have 2: "title e' = [0xC9, 0x76, 0xE9, 0x6E, 0x65, 0x6D, 0x65, 0x6E, 0x74]"
    using title_description_fallback [of 0 "''en''" 0 bare_record e' Map.empty Map.empty] e' t' d'
    by (simp add: truthy_def)
  have "well_formed partial_record"
    by (simp add: well_formed_def partial_record_def valid_window_window)
  from normalize_defined [OF this]
  obtain e'' where e'': "normalize 0 ''de'' 0 partial_record = Inr e''"
    by blast
  have t'': "record_title partial_record = Some [''fr'' \<mapsto> []]"
    and d'': "record_description partial_record = Some Map.empty"
    by (simp_all add: partial_record_def)
  have 3: "title e'' = [0xC9, 0x76, 0xE9, 0x6E, 0x65, 0x6D, 0x65, 0x6E, 0x74]"
    using title_description_fallback [of 0 "''de''" 0 partial_record e'' "[''fr'' \<mapsto> []]"
        Map.empty] e'' t'' d''
    by (simp add: truthy_def)
  from e 1 e' 2 e'' 3 k show ?thesis by (auto simp: truthy_def)
qed




text \<open>
  C9. In the model the label and the date of an event are a function of the time zone, the
  locale, the clock reading and the \<open>dates\<close> of the record, and of nothing else in the
  record; the list of events is a function of the batch and of the clock readings for its
  records. In particular identical inputs give identical labels and identical lists.
\<close>

theorem label_depends_on_dates_and_clock:
  "(record_dates r = record_dates r' \<and> normalize tz lang now r = Inr e \<and>
    normalize tz lang now r' = Inr e' \<longrightarrow>
      dateString e = dateString e' \<and> date e = date e') \<and>
   ((\<forall>i < length rs. clock i = clock' i) \<longrightarrow>
      normalize_records tz lang clock rs = normalize_records tz lang clock' rs)"
proof (intro conjI impI)
  assume a: "record_dates r = record_dates r' \<and> normalize tz lang now r = Inr e \<and>
    normalize tz lang now r' = Inr e'"
  then show "dateString e = dateString e'" by (auto simp: normalize_Inr)
  from a show "date e = date e'" by (auto simp: normalize_Inr)
next
  assume a: "\<forall>i < length rs. clock i = clock' i"
  have "map_records (\<lambda>i. normalize tz lang (clock i)) 0 rs =
      map_records (\<lambda>i. normalize tz lang (clock' i)) 0 rs"
    using a by (intro map_records_cong) simp
  then show "normalize_records tz lang clock rs = normalize_records tz lang clock' rs"
    by (simp add: normalize_records_def)
qed

theorem label_depends_on_dates_and_clock_witness:
  "(\<exists>e e'. normalize 0 ''de'' 0 (example_record ''a'' [window 1000 2000 None] []) = Inr e \<and>
      normalize 0 ''de'' 0 (example_record ''b'' [window 1000 2000 None] [with_url ''/b.png'']) =
        Inr e' \<and>
      dateString e = dateString e' \<and> date e = date e') \<and>
   map (fixed_clock 0) [0..<length example_batch] =
     map (late_clock 4) [0..<length example_batch] \<and>
   normalize_records 0 ''de'' (fixed_clock 0) example_batch =
     normalize_records 0 ''de'' (late_clock 4) example_batch"
proof -
  let ?a = "example_record ''a'' [window 1000 2000 None] []"
  let ?b = "example_record ''b'' [window 1000 2000 None] [with_url ''/b.png'']"
  have "well_formed ?a" by (simp add: well_formed_example valid_window_window)
  from normalize_defined [OF this] obtain e where e: "normalize 0 ''de'' 0 ?a = Inr e"
    by blast
  have "well_formed ?b" by (simp add: well_formed_example valid_window_window)
  from normalize_defined [OF this] obtain e' where e': "normalize 0 ''de'' 0 ?b = Inr e'"
    by blast
  have d: "record_dates ?a = record_dates ?b" by (simp add: example_record_def)
  have c: "\<forall>i < length example_batch. fixed_clock 0 i = late_clock 4 i"
    by (simp add: example_batch_def fixed_clock_def late_clock_def)
  have m: "map (fixed_clock 0) [0..<length example_batch] =
      map (late_clock 4) [0..<length example_batch]"
    using c by simp
  from label_depends_on_dates_and_clock [of ?a ?b 0 "''de''" 0 e e' example_batch
      "fixed_clock 0" "late_clock 4"] d e e' c m
  show ?thesis by blast
qed

text \<open>
  C10. The \<open>url\<close> of an event is \<open>https://www.echo.lu/en/experiences/\<close> followed by the
  \<open>id\<close> of its record, for every requested locale; so it is for every event of a list.
\<close>

theorem url_is_english_page:
  "(normalize tz lang now r = Inr e \<longrightarrow>
      url e = js ''https://www.echo.lu/en/experiences/'' @ record_id r) \<and>
   (normalize_records tz lang clock rs = Inr out \<longrightarrow>
      (\<forall>e \<in> set out.
         url e = js ''https://www.echo.lu/en/experiences/'' @ record_id (rawRecord e)))"
proof (intro conjI impI ballI)
  assume "normalize tz lang now r = Inr e"
  then show "url e = js ''https://www.echo.lu/en/experiences/'' @ record_id r"
    by (auto simp: normalize_Inr)
next
  fix e
  assume a: "normalize_records tz lang clock rs = Inr out" and e: "e \<in> set out"
  from a obtain es where es: "map_records (\<lambda>i. normalize tz lang (clock i)) 0 rs = Inr es"
    and out: "out = filter (\<lambda>event. absoluteImageUrl event \<noteq> []) (sort_by compareFn es)"
    by (auto simp: normalize_records_def bind_def split: sum.splits)
  from e have "e \<in> set es" by (simp add: out set_sort_by)
  then obtain k where k: "k < length es" "es ! k = e" by (auto simp: in_set_conv_nth)
  from map_records_Inr [OF es] k
  have "normalize tz lang (clock k) (rs ! k) = Inr e" by auto
  then show "url e = js ''https://www.echo.lu/en/experiences/'' @ record_id (rawRecord e)"
    by (auto simp: normalize_Inr)
qed

theorem url_is_english_page_witness:
  "(\<exists>e. normalize 0 ''de'' 0 (example_record ''b'' [window 1000 2000 None] []) = Inr e \<and>
      url e = js ''https://www.echo.lu/en/experiences/b'') \<and>
   (\<exists>out. normalize_records 0 ''fr'' (fixed_clock 0) example_batch = Inr out \<and>
      (\<forall>e \<in> set out.
         url e = js ''https://www.echo.lu/en/experiences/'' @ record_id (rawRecord e)))"
proof -
  let ?b = "example_record ''b'' [window 1000 2000 None] []"
  have "well_formed ?b" by (simp add: well_formed_example valid_window_window)
  from normalize_defined [OF this] obtain e where e: "normalize 0 ''de'' 0 ?b = Inr e"
    by blast
  have i: "record_id ?b = js ''b''" by (simp add: example_record_def)
  have "\<forall>r \<in> set example_batch. well_formed r"
    by (simp add: example_batch_def well_formed_example valid_window_window)
  from normalize_records_defined [OF this]
  obtain out where out: "normalize_records 0 ''fr'' (fixed_clock 0) example_batch = Inr out"
    by blast
  have 1: "url e = js ''https://www.echo.lu/en/experiences/b''"
    using url_is_english_page [of 0 "''de''" 0 ?b e "fixed_clock 0" example_batch out] e i
    by (simp add: js_def)
  have 2: "\<forall>e \<in> set out.
         url e = js ''https://www.echo.lu/en/experiences/'' @ record_id (rawRecord e)"
    using url_is_english_page [of 0 "''fr''" 0 ?b e "fixed_clock 0" example_batch out] out
    by blast
  from e 1 out 2 show ?thesis by blast
qed

end
